theory Spec2Isabelle
  imports Main "HOL-Library.Word"
begin

unbundle bit_operations_syntax

section \<open>The datagram socket engine of net/socket/udp\_socket\_posix.cc\<close>

text \<open>
  The embedding follows the release build of the source: a \<^verbatim>\<open>DCHECK\<close> is compiled out
  and is not part of a function, a \<^verbatim>\<open>CHECK\<close> or \<^verbatim>\<open>PCHECK\<close> that fails ends the
  process and is the value \<open>Inl CheckFailed\<close>. Logging and tracing (\<^verbatim>\<open>net_log_\<close>,
  \<^verbatim>\<open>TRACE_EVENT\<close>, the UMA histograms) are left out. Every member function takes the
  socket and the world around it (the kernel, the clock, the process-wide counters) and
  returns both updated.
\<close>

subsection \<open>Results and errors\<close>

text \<open>
  A net result is an \<^verbatim>\<open>int\<close> in the source: negative for an error of
  net/base/net\_error\_list.h, \<^verbatim>\<open>OK\<close> (zero) or a byte count otherwise. The error codes
  the engine names are constructors here, \<open>ERR_CODE\<close> stands for any other code of the
  list; \<open>rv < 0\<close> of the source reads \<open>isl rv\<close>.
\<close>

datatype net_error =
    ERR_IO_PENDING
  | ERR_INVALID_ARGUMENT
  | ERR_NOT_IMPLEMENTED
  | ERR_INSUFFICIENT_RESOURCES
  | ERR_SOCKET_NOT_CONNECTED
  | ERR_SOCKET_IS_CONNECTED
  | ERR_ADDRESS_INVALID
  | ERR_MSG_TOO_BIG
  | ERR_ADDRESS_IN_USE
  | ERR_CODE int

type_synonym net_result = "net_error + int"

abbreviation OK :: net_result where
  "OK \<equiv> Inr 0"

datatype fatal = CheckFailed

subsection \<open>Constants of the anonymous namespace\<close>

definition kBindRetries :: int where
  "kBindRetries = 10"

definition kPortStart :: int where
  "kPortStart = 1024"

definition kPortEnd :: int where
  "kPortEnd = 65535"

definition kActivityMonitorBytesThreshold :: int where
  "kActivityMonitorBytesThreshold = 65535"

definition kActivityMonitorMinimumSamplesForThroughputEstimate :: int where
  "kActivityMonitorMinimumSamplesForThroughputEstimate = 2"

text \<open>\<^verbatim>\<open>kActivityMonitorMsThreshold\<close>, in milliseconds.\<close>

definition kActivityMonitorMsThreshold :: nat where
  "kActivityMonitorMsThreshold = 100"

definition kInvalidSocket :: int where
  "kInvalidSocket = - 1"

definition GetSocketFDHash :: "int \<Rightarrow> int" where
  "GetSocketFDHash fd = fd XOR 1595649551"

subsection \<open>Addresses\<close>

text \<open>
  \<^verbatim>\<open>IPAddress\<close> and \<^verbatim>\<open>IPEndPoint\<close> are declared in net/base, outside the sources at
  hand: an address is its bytes, an endpoint an address and a port.
\<close>

type_synonym IPAddress = "8 word list"

record IPEndPoint =
  address :: IPAddress
  port :: int

definition kIPv4AddressSize :: nat where
  "kIPv4AddressSize = 4"

definition kIPv6AddressSize :: nat where
  "kIPv6AddressSize = 16"

definition AllZeros :: "nat \<Rightarrow> IPAddress" where
  "AllZeros n = replicate n 0"

datatype sa_family = AF_UNSPEC | AF_INET | AF_INET6

text \<open>
  Modelled from the spec: \<^verbatim>\<open>IPEndPoint::GetSockAddrFamily\<close> and
  \<^verbatim>\<open>IPEndPoint::ToSockAddr\<close> (net/base/ip\_endpoint.cc) are not under src/. The family
  follows the size of the address; the conversion to a \<^verbatim>\<open>sockaddr\<close> succeeds for the
  two sizes a \<^verbatim>\<open>sockaddr\<close> exists for ("malformed/unsupported sockaddr" is
  \<open>AddressInvalid\<close>).
\<close>

definition GetSockAddrFamily :: "IPEndPoint \<Rightarrow> sa_family" where
  "GetSockAddrFamily e =
     (if length (address e) = kIPv4AddressSize then AF_INET
      else if length (address e) = kIPv6AddressSize then AF_INET6
      else AF_UNSPEC)"

definition ToSockAddr :: "IPEndPoint \<Rightarrow> bool" where
  "ToSockAddr e \<longleftrightarrow>
     length (address e) = kIPv4AddressSize \<or> length (address e) = kIPv6AddressSize"

subsection \<open>The kernel\<close>

text \<open>
  A system call is a value, and the kernel answers the \<open>n\<close>-th call of a run with a
  return value and the \<^verbatim>\<open>errno\<close> it leaves: \<open>sys_reply w n c\<close>. The calls issued so far
  are \<open>sys_log w\<close>, oldest first. A call the source wraps in \<^verbatim>\<open>HANDLE_EINTR\<close> or
  \<^verbatim>\<open>IGNORE_EINTR\<close> (base/posix/eintr\_wrapper.h, not under src/) is one call here, answered
  with what the wrapper hands back.
\<close>

datatype sockopt_level = SOL_SOCKET | IPPROTO_IP | IPPROTO_IPV6

datatype sockopt_name =
    SO_ERROR
  | IP_TOS
  | IPV6_TCLASS
  | IP_MULTICAST_LOOP
  | IPV6_MULTICAST_LOOP
  | IP_MULTICAST_TTL
  | IPV6_MULTICAST_HOPS
  | IP_MULTICAST_IF
  | IPV6_MULTICAST_IF
  | IP_ADD_MEMBERSHIP
  | IP_DROP_MEMBERSHIP
  | IPV6_JOIN_GROUP
  | IPV6_LEAVE_GROUP

text \<open>
  The value a \<^verbatim>\<open>setsockopt\<close> passes: an \<^verbatim>\<open>int\<close> or \<^verbatim>\<open>u_int\<close>, a \<^verbatim>\<open>u_char\<close>, an
  \<^verbatim>\<open>ip_mreqn\<close> (interface index, local address, group address) or an \<^verbatim>\<open>ipv6_mreq\<close>
  (interface index, group address).
\<close>

datatype sockopt_value =
    IntVal int
  | UCharVal "8 word"
  | Mreqn "32 word" "32 word" IPAddress
  | Mreq6 "32 word" IPAddress
  | IfIndexVal "32 word"

text \<open>
  The direction a readiness watcher is registered for
  (\<^verbatim>\<open>base::MessagePumpForIO::WATCH_READ\<close>, \<^verbatim>\<open>WATCH_WRITE\<close>). The registration
  \<^verbatim>\<open>WatchFileDescriptor\<close> of the message pump is a call like the others; it succeeds
  when it returns zero, and leaves an error number when it fails. A \<^verbatim>\<open>sendto\<close> carries
  the descriptor, the buffer, its length, the flags and the destination (\<open>None\<close> on a
  connected socket).
\<close>

datatype watch_mode = WATCH_READ | WATCH_WRITE

datatype syscall =
    CreatePlatformSocket sa_family
  | change_fdguard_np int
  | SetNonBlocking int
  | sys_setsockopt int sockopt_level sockopt_name sockopt_value
  | sys_getsockopt int sockopt_level sockopt_name
  | sys_bind int IPEndPoint
  | sys_connect int IPEndPoint
  | sys_read int nat int
  | sys_recvmsg int nat int
  | sys_sendto int nat int int "IPEndPoint option"
  | WatchFileDescriptor int watch_mode
  | sys_close int
  | guarded_close_np int

text \<open>
  The answer to a call: \<open>ret\<close> is the value returned, \<open>errno\<close> the error number left
  behind (the numbers the source names are constructors, \<open>Errno\<close> any other). A \<^verbatim>\<open>recvmsg\<close> also answers with the sender (\<open>None\<close> when what it stored does
  not parse as an endpoint) and whether \<^verbatim>\<open>MSG_TRUNC\<close> is set in \<^verbatim>\<open>msg_flags\<close>.
\<close>

datatype errno_t =
  EINVAL | EADDRNOTAVAIL | ENOTCONN | EPROTOTYPE | EADDRINUSE | EAGAIN | Errno int

record reply =
  ret :: int
  errno :: errno_t
  msg_name :: "IPEndPoint option"
  msg_trunc :: bool

text \<open>
  \<^verbatim>\<open>SocketTag\<close> (net/socket/socket\_tag.h, not under src/): a user id and a traffic
  statistics tag; the default-constructed tag \<^verbatim>\<open>SocketTag()\<close> has both unset.
\<close>

type_synonym SocketTag = "int \<times> int"

definition SocketTag_default :: SocketTag where
  "SocketTag_default = (- 1, - 1)"

text \<open>
  The rest of the world: the source of \<^verbatim>\<open>base::RandInt\<close>, the clock (milliseconds), the
  process-wide count of open UDP sockets with its limit, the process-wide counter of
  bytes received (\<^verbatim>\<open>activity_monitor::IncrementBytesReceived\<close>), the completion
  callbacks that were run (with the result each was given), the endpoints stored through
  a caller's \<^verbatim>\<open>IPEndPoint*\<close>, and the socket tags applied to descriptors.
\<close>

record world =
  sys_reply :: "nat \<Rightarrow> syscall \<Rightarrow> reply"
  sys_log :: "syscall list"
  rand_src :: "nat \<Rightarrow> nat"
  rand_used :: nat
  now :: nat
  udp_socket_count :: nat
  udp_socket_limit :: nat
  bytes_received :: nat
  callbacks_run :: "(nat \<times> net_result) list"
  out_endpoints :: "nat \<Rightarrow> IPEndPoint option"
  tags_applied :: "(SocketTag \<times> int) list"

definition sys :: "syscall \<Rightarrow> world \<Rightarrow> reply \<times> world" where
  "sys c w = (sys_reply w (length (sys_log w)) c, w\<lparr>sys_log := sys_log w @ [c]\<rparr>)"

text \<open>
  Modelled from the spec: \<^verbatim>\<open>base::RandInt\<close> (base/rand\_util.h) is not under src/. It
  returns a number of the closed interval \<open>[min, max]\<close>; the world supplies the draws.
\<close>

definition RandInt :: "int \<Rightarrow> int \<Rightarrow> world \<Rightarrow> int \<times> world" where
  "RandInt lo hi w =
     (lo + int (rand_src w (rand_used w)) mod (hi - lo + 1),
      w\<lparr>rand_used := Suc (rand_used w)\<rparr>)"

definition IncrementBytesReceived :: "nat \<Rightarrow> world \<Rightarrow> world" where
  "IncrementBytesReceived n w = w\<lparr>bytes_received := bytes_received w + n\<rparr>"

subsection \<open>The activity monitor\<close>

text \<open>
  Modelled from the spec: \<^verbatim>\<open>base::RepeatingTimer\<close> (base/timer/timer.h) is not under
  src/. A timer is running or not, has the period it was started with and the time of
  its next run; \<^verbatim>\<open>Start\<close> and \<^verbatim>\<open>Reset\<close> schedule the next run one period from now.
\<close>

record Timer =
  is_running :: bool
  delay :: nat
  desired_run_time :: nat

definition Timer_Start :: "nat \<Rightarrow> nat \<Rightarrow> Timer \<Rightarrow> Timer" where
  "Timer_Start t d tm = \<lparr>is_running = True, delay = d, desired_run_time = t + d\<rparr>"

definition Timer_Reset :: "nat \<Rightarrow> Timer \<Rightarrow> Timer" where
  "Timer_Reset t tm = tm\<lparr>is_running := True, desired_run_time := t + delay tm\<rparr>"

definition Timer_Stop :: "Timer \<Rightarrow> Timer" where
  "Timer_Stop tm = tm\<lparr>is_running := False\<rparr>"

text \<open>
  \<^verbatim>\<open>ReceivedActivityMonitor\<close>: \<^verbatim>\<open>bytes_\<close> and \<^verbatim>\<open>increments_\<close> are \<^verbatim>\<open>uint32_t\<close>
  members (declared in udp\_socket\_posix.h). A member \<^verbatim>\<open>name_\<close> of the source is the
  field \<open>name\<close> here.
\<close>

record ReceivedActivityMonitor =
  bytes :: "32 word"
  increments :: "32 word"
  timer :: Timer

definition Update :: "ReceivedActivityMonitor \<Rightarrow> world \<Rightarrow> ReceivedActivityMonitor \<times> world" where
  "Update m w =
     (if bytes m = 0 then (m, w)
      else (m\<lparr>bytes := 0\<rparr>, IncrementBytesReceived (unat (bytes m)) w))"

definition Increment ::
  "32 word \<Rightarrow> ReceivedActivityMonitor \<Rightarrow> world \<Rightarrow> ReceivedActivityMonitor \<times> world" where
  "Increment n m w =
     (if n = 0 then (m, w)
      else
        let timer_running = is_running (timer m);
            m1 = m\<lparr>bytes := bytes m + n, increments := increments m + 1\<rparr>;
            (m2, w2) =
              (if uint (increments m1) < kActivityMonitorMinimumSamplesForThroughputEstimate
                  \<or> uint (bytes m1) > kActivityMonitorBytesThreshold
               then
                 let (m', w') = Update m1 w
                 in (if timer_running
                     then m'\<lparr>timer := Timer_Reset (now w') (timer m')\<rparr>
                     else m', w')
               else (m1, w))
        in if \<not> timer_running
           then (m2\<lparr>timer := Timer_Start (now w2) kActivityMonitorMsThreshold (timer m2)\<rparr>, w2)
           else (m2, w2))"

definition OnClose :: "ReceivedActivityMonitor \<Rightarrow> world \<Rightarrow> ReceivedActivityMonitor \<times> world" where
  "OnClose m w = Update (m\<lparr>timer := Timer_Stop (timer m)\<rparr>) w"

definition OnTimerFired ::
  "ReceivedActivityMonitor \<Rightarrow> world \<Rightarrow> ReceivedActivityMonitor \<times> world" where
  "OnTimerFired m w =
     (let m1 = m\<lparr>increments := 0\<rparr>
      in if bytes m1 = 0 then (m1\<lparr>timer := Timer_Stop (timer m1)\<rparr>, w)
         else Update m1 w)"

text \<open>The monitor as constructed: both counters zero, the timer not started.\<close>

definition monitor_init :: ReceivedActivityMonitor where
  "monitor_init =
     \<lparr>bytes = 0, increments = 0,
      timer = \<lparr>is_running = False, delay = 0, desired_run_time = 0\<rparr>\<rparr>"

text \<open>
  The events of a monitor's life: an \<^verbatim>\<open>Increment\<close>, the passing of time, the timer
  firing and \<^verbatim>\<open>OnClose\<close>. The timer fires only while it is running and its time has
  come; a repeating timer schedules its next run before it runs \<^verbatim>\<open>OnTimerFired\<close>.
\<close>

datatype monitor_event = EvIncrement "32 word" | EvAdvance nat | EvTimerFired | EvOnClose

definition monitor_step ::
  "monitor_event \<Rightarrow> ReceivedActivityMonitor \<times> world \<Rightarrow> ReceivedActivityMonitor \<times> world" where
  "monitor_step ev mw =
     (let (m, w) = mw
      in case ev of
           EvIncrement n \<Rightarrow> Increment n m w
         | EvAdvance d \<Rightarrow> (m, w\<lparr>now := now w + d\<rparr>)
         | EvTimerFired \<Rightarrow>
             (if is_running (timer m) \<and> desired_run_time (timer m) \<le> now w
              then OnTimerFired (m\<lparr>timer := Timer_Reset (now w) (timer m)\<rparr>) w
              else (m, w))
         | EvOnClose \<Rightarrow> OnClose m w)"

definition monitor_run ::
  "monitor_event list \<Rightarrow> ReceivedActivityMonitor \<times> world \<Rightarrow> ReceivedActivityMonitor \<times> world" where
  "monitor_run evs mw = foldl (\<lambda>s ev. monitor_step ev s) mw evs"

text \<open>
  What every step of the monitor keeps: there are no unreported bytes, or the timer is
  running. (A step leaves the monitor alone, or leaves it without bytes, or leaves the
  timer running.)
\<close>

definition timer_covers_bytes :: "ReceivedActivityMonitor \<Rightarrow> bool" where
  "timer_covers_bytes m \<longleftrightarrow> bytes m = 0 \<or> is_running (timer m)"

subsection \<open>The flush rule in the words of the specification\<close>

text \<open>
  The specification counts "samples accumulated since the last flush". Over a run of
  events, a sample is an \<^verbatim>\<open>Increment\<close> of a non-zero number of bytes and a flush is a
  step that reports bytes to the process-wide counter; \<open>samples_since_last_flush evs mw k\<close>
  is that count after the events \<open>evs\<close> from the state \<open>mw\<close>, where it was \<open>k\<close>.
\<close>

definition is_sample :: "monitor_event \<Rightarrow> bool" where
  "is_sample ev = (case ev of EvIncrement n \<Rightarrow> n \<noteq> 0 | _ \<Rightarrow> False)"

definition step_flushes :: "monitor_event \<Rightarrow> ReceivedActivityMonitor \<times> world \<Rightarrow> bool" where
  "step_flushes ev mw \<longleftrightarrow> bytes_received (snd (monitor_step ev mw)) \<noteq> bytes_received (snd mw)"

fun samples_since_last_flush ::
  "monitor_event list \<Rightarrow> ReceivedActivityMonitor \<times> world \<Rightarrow> nat \<Rightarrow> nat" where
  "samples_since_last_flush [] mw k = k"
| "samples_since_last_flush (ev # evs) mw k =
     samples_since_last_flush evs (monitor_step ev mw)
       (if step_flushes ev mw then 0 else if is_sample ev then k + 1 else k)"

subsection \<open>The socket\<close>

text \<open>
  What the build decides: the \<^verbatim>\<open>BUILDFLAG\<close>s the modelled functions branch on, and
  \<^verbatim>\<open>MapSystemError\<close> (net/base/net\_errors\_posix.cc, not under src/), which maps the
  \<^verbatim>\<open>errno\<close> of a failed call to an error code.
\<close>

record platform =
  IS_APPLE :: bool
  CRONET_BUILD :: bool
  IS_CHROMEOS_ASH :: bool
  IS_FUCHSIA :: bool
  MapSystemError :: "errno_t \<Rightarrow> net_error"

datatype BindType = RANDOM_BIND | DEFAULT_BIND

datatype AddressFamily =
  ADDRESS_FAMILY_UNSPECIFIED | ADDRESS_FAMILY_IPV4 | ADDRESS_FAMILY_IPV6

text \<open>\<^verbatim>\<open>ConvertAddressFamily\<close> (net/base/address\_family.cc, not under src/).\<close>

fun ConvertAddressFamily :: "AddressFamily \<Rightarrow> sa_family" where
  "ConvertAddressFamily ADDRESS_FAMILY_UNSPECIFIED = AF_UNSPEC"
| "ConvertAddressFamily ADDRESS_FAMILY_IPV4 = AF_INET"
| "ConvertAddressFamily ADDRESS_FAMILY_IPV6 = AF_INET6"

text \<open>
  The members of \<^verbatim>\<open>UDPSocketPosix\<close> (declared in udp\_socket\_posix.h). \<open>addr_family\<close> is
  an \<^verbatim>\<open>int\<close> in the source, zero being \<open>AF_UNSPEC\<close>. A buffer, a completion callback
  and a caller's \<^verbatim>\<open>IPEndPoint*\<close> are identified by a number, \<open>None\<close> is the null
  pointer or the null callback. A watcher is \<open>True\<close> while it watches the descriptor.
  \<open>owned_socket_count\<close> is \<open>True\<close> while the socket holds a token of the admission
  gate.
\<close>

record UDPSocketPosix =
  socket :: int
  socket_hash :: int
  addr_family :: sa_family
  is_connected :: bool
  bind_type :: BindType
  socket_options :: int
  sendto_flags :: int
  multicast_interface :: "32 word"
  multicast_time_to_live :: int
  local_address :: "IPEndPoint option"
  remote_address :: "IPEndPoint option"
  read_socket_watcher :: bool
  write_socket_watcher :: bool
  read_buf :: "nat option"
  read_buf_len :: int
  recv_from_address :: "nat option"
  write_buf :: "nat option"
  write_buf_len :: int
  send_to_address :: "IPEndPoint option"
  read_callback :: "nat option"
  write_callback :: "nat option"
  tag :: SocketTag
  owned_socket_count :: bool
  received_activity_monitor :: ReceivedActivityMonitor
  experimental_recv_optimization_enabled :: bool
  always_update_bytes_received :: bool
  dont_close :: bool

text \<open>\<^verbatim>\<open>SOCKET_OPTION_MULTICAST_LOOP = 1 << 0\<close> of the header; \<^verbatim>\<open>IP_DEFAULT_MULTICAST_TTL\<close> of netinet/in.h.\<close>

definition SOCKET_OPTION_MULTICAST_LOOP :: int where
  "SOCKET_OPTION_MULTICAST_LOOP = 1"

definition IP_DEFAULT_MULTICAST_TTL :: int where
  "IP_DEFAULT_MULTICAST_TTL = 1"

text \<open>
  Modelled from the spec: \<^verbatim>\<open>TryAcquireGlobalUDPSocketCount\<close> and \<^verbatim>\<open>OwnedUDPSocketCount\<close>
  (net/socket/udp\_socket\_global\_limits.cc) are not under src/. The gate "bounds the number
  of simultaneously open sockets process-wide to a fixed capacity": it hands out a token
  while the count is below the limit, and a token that is released gives its unit back.
\<close>

definition TryAcquireGlobalUDPSocketCount :: "world \<Rightarrow> bool \<times> world" where
  "TryAcquireGlobalUDPSocketCount w =
     (if udp_socket_count w < udp_socket_limit w
      then (True, w\<lparr>udp_socket_count := udp_socket_count w + 1\<rparr>)
      else (False, w))"

definition OwnedUDPSocketCount_Reset :: "bool \<Rightarrow> world \<Rightarrow> world" where
  "OwnedUDPSocketCount_Reset held w =
     (if held then w\<lparr>udp_socket_count := udp_socket_count w - 1\<rparr> else w)"

definition DoBind :: "platform \<Rightarrow> UDPSocketPosix \<Rightarrow> IPEndPoint \<Rightarrow> world \<Rightarrow> net_result \<times> world" where
  "DoBind p s addr w =
     (if \<not> ToSockAddr addr then (Inl ERR_ADDRESS_INVALID, w)
      else
        let (r, w1) = sys (sys_bind (socket s) addr) w
        in if ret r = 0 then (OK, w1)
           else
             let last_error = errno r
             in if IS_CHROMEOS_ASH p then
                  (if last_error = EINVAL then (Inl ERR_ADDRESS_IN_USE, w1)
                   else (Inl (MapSystemError p last_error), w1))
                else if IS_APPLE p then
                  (if last_error = EADDRNOTAVAIL then (Inl ERR_ADDRESS_IN_USE, w1)
                   else (Inl (MapSystemError p last_error), w1))
                else (Inl (MapSystemError p last_error), w1))"

text \<open>
  What \<^verbatim>\<open>DoBind\<close> makes of the kernel's answer to a \<^verbatim>\<open>bind\<close>.
\<close>

definition bind_result :: "platform \<Rightarrow> reply \<Rightarrow> net_result" where
  "bind_result p r =
     (if ret r = 0 then OK
      else if IS_CHROMEOS_ASH p \<and> errno r = EINVAL then Inl ERR_ADDRESS_IN_USE
      else if \<not> IS_CHROMEOS_ASH p \<and> IS_APPLE p \<and> errno r = EADDRNOTAVAIL
        then Inl ERR_ADDRESS_IN_USE
      else Inl (MapSystemError p (errno r)))"

text \<open>
  A run of bind attempts, as C1 describes it: from the world \<open>w\<close>, with \<open>k\<close> random
  attempts allowed, the ports \<open>ps\<close> were tried in this order and \<open>out\<close> came of it.
  The calls issued are the binds of the wildcard address \<open>a\<close> to these ports; each of the
  first \<open>k\<close> ports is the next draw of \<^verbatim>\<open>RandInt(kPortStart, kPortEnd)\<close>; a port after
  those is port 0; every attempt but the last was answered address-in-use; the result is
  the answer to the last attempt; and if fewer than \<open>k + 1\<close> ports were tried the result
  is not address-in-use.
\<close>

definition bind_attempts ::
  "platform \<Rightarrow> UDPSocketPosix \<Rightarrow> IPAddress \<Rightarrow> nat \<Rightarrow> world \<Rightarrow> int list
     \<Rightarrow> net_result \<times> world \<Rightarrow> bool" where
  "bind_attempts p s a k w ps out \<longleftrightarrow>
     1 \<le> length ps \<and> length ps \<le> k + 1
   \<and> snd out = w\<lparr>rand_used := rand_used w + min (length ps) k,
                  sys_log := sys_log w
                     @ map (\<lambda>q. sys_bind (socket s) \<lparr>address = a, port = q\<rparr>) ps\<rparr>
   \<and> (\<forall>j. j < length ps \<and> j < k \<longrightarrow>
          ps ! j = kPortStart
                     + int (rand_src w (rand_used w + j)) mod (kPortEnd - kPortStart + 1))
   \<and> (length ps = k + 1 \<longrightarrow> ps ! k = 0)
   \<and> (\<forall>j. j + 1 < length ps \<longrightarrow>
          bind_result p (sys_reply w (length (sys_log w) + j)
                           (sys_bind (socket s) \<lparr>address = a, port = ps ! j\<rparr>))
            = Inl ERR_ADDRESS_IN_USE)
   \<and> fst out =
        bind_result p (sys_reply w (length (sys_log w) + (length ps - 1))
                         (sys_bind (socket s) \<lparr>address = a, port = ps ! (length ps - 1)\<rparr>))
   \<and> (length ps \<le> k \<longrightarrow> fst out \<noteq> Inl ERR_ADDRESS_IN_USE)"

text \<open>The loop of \<^verbatim>\<open>RandomBind\<close>, from the value \<open>i\<close> of its counter on.\<close>

function RandomBind_from ::
  "platform \<Rightarrow> UDPSocketPosix \<Rightarrow> IPAddress \<Rightarrow> int \<Rightarrow> world \<Rightarrow> net_result \<times> world" where
  "RandomBind_from p s a i w =
     (if i < kBindRetries then
        (let (pt, w1) = RandInt kPortStart kPortEnd w;
             (rv, w2) = DoBind p s \<lparr>address = a, port = pt\<rparr> w1
         in if rv \<noteq> Inl ERR_ADDRESS_IN_USE then (rv, w2)
            else RandomBind_from p s a (i + 1) w2)
      else DoBind p s \<lparr>address = a, port = 0\<rparr> w)"
  by pat_completeness auto
termination
  by (relation "measure (\<lambda>(p, s, a, i, w). nat (kBindRetries - i))") auto

declare RandomBind_from.simps [simp del]

definition RandomBind ::
  "platform \<Rightarrow> UDPSocketPosix \<Rightarrow> IPAddress \<Rightarrow> world \<Rightarrow> net_result \<times> world" where
  "RandomBind p s a w = RandomBind_from p s a 0 w"

text \<open>
  \<^verbatim>\<open>SetMulticastOptions\<close>: three stages, each returning at its first failed call. The
  \<open>Some\<close> of a stage is the error it returns, \<open>None\<close> lets the next stage run.
\<close>

definition SetMulticastOptions :: "platform \<Rightarrow> UDPSocketPosix \<Rightarrow> world \<Rightarrow> net_result \<times> world" where
  "SetMulticastOptions p s w =
     (let (e1, w1) =
            (if socket_options s AND SOCKET_OPTION_MULTICAST_LOOP = 0 then
               let (r, w') =
                     (if addr_family s = AF_INET
                      then sys (sys_setsockopt (socket s) IPPROTO_IP IP_MULTICAST_LOOP (UCharVal 0)) w
                      else sys (sys_setsockopt (socket s) IPPROTO_IPV6 IPV6_MULTICAST_LOOP (IntVal 0)) w)
               in (if ret r < 0 then Some (MapSystemError p (errno r)) else None, w')
             else (None, w))
      in case e1 of
           Some e \<Rightarrow> (Inl e, w1)
         | None \<Rightarrow>
             (let (e2, w2) =
                    (if multicast_time_to_live s \<noteq> IP_DEFAULT_MULTICAST_TTL then
                       let (r, w') =
                             (if addr_family s = AF_INET
                              then sys (sys_setsockopt (socket s) IPPROTO_IP IP_MULTICAST_TTL
                                          (UCharVal (word_of_int (multicast_time_to_live s)))) w1
                              else sys (sys_setsockopt (socket s) IPPROTO_IPV6 IPV6_MULTICAST_HOPS
                                          (IntVal (multicast_time_to_live s))) w1)
                       in (if ret r < 0 then Some (MapSystemError p (errno r)) else None, w')
                     else (None, w1))
              in case e2 of
                   Some e \<Rightarrow> (Inl e, w2)
                 | None \<Rightarrow>
                     (if multicast_interface s \<noteq> 0 then
                        (case addr_family s of
                           AF_INET \<Rightarrow>
                             (let (r, w3) = sys (sys_setsockopt (socket s) IPPROTO_IP IP_MULTICAST_IF
                                                   (Mreqn (multicast_interface s) 0 (AllZeros kIPv4AddressSize))) w2
                              in if ret r \<noteq> 0 then (Inl (MapSystemError p (errno r)), w3)
                                 else (OK, w3))
                         | AF_INET6 \<Rightarrow>
                             (let (r, w3) = sys (sys_setsockopt (socket s) IPPROTO_IPV6 IPV6_MULTICAST_IF
                                                   (IfIndexVal (multicast_interface s))) w2
                              in if ret r \<noteq> 0 then (Inl (MapSystemError p (errno r)), w3)
                                 else (OK, w3))
                         | AF_UNSPEC \<Rightarrow> (Inl ERR_ADDRESS_INVALID, w2))
                      else (OK, w2))))"

definition InternalConnect ::
  "platform \<Rightarrow> UDPSocketPosix \<Rightarrow> IPEndPoint \<Rightarrow> world \<Rightarrow> net_result \<times> UDPSocketPosix \<times> world" where
  "InternalConnect p s addr w =
     (let (rv, w1) =
            (if bind_type s = RANDOM_BIND then
               let addr_size = (if GetSockAddrFamily addr = AF_INET
                                then kIPv4AddressSize else kIPv6AddressSize)
               in RandomBind p s (AllZeros addr_size) w
             else (OK, w))
      in if isl rv then (rv, s, w1)
         else if \<not> ToSockAddr addr then (Inl ERR_ADDRESS_INVALID, s, w1)
         else
           let (r, w2) = sys (sys_connect (socket s) addr) w1
           in if ret r < 0 then (Inl (MapSystemError p (errno r)), s, w2)
              else (Inr (ret r), s\<lparr>remote_address := Some addr\<rparr>, w2))"

definition Connect ::
  "platform \<Rightarrow> UDPSocketPosix \<Rightarrow> IPEndPoint \<Rightarrow> world \<Rightarrow> net_result \<times> UDPSocketPosix \<times> world" where
  "Connect p s addr w =
     (let (rv0, w1) = SetMulticastOptions p s w
      in if rv0 \<noteq> OK then (rv0, s, w1)
         else
           let (rv, s1, w2) = InternalConnect p s addr w1;
               s2 = s1\<lparr>is_connected := (rv = OK)\<rparr>;
               s3 = (if rv \<noteq> OK then s2\<lparr>tag := SocketTag_default\<rparr> else s2)
           in (rv, s3, w2))"

definition Bind ::
  "platform \<Rightarrow> UDPSocketPosix \<Rightarrow> IPEndPoint \<Rightarrow> world \<Rightarrow> net_result \<times> UDPSocketPosix \<times> world" where
  "Bind p s addr w =
     (let (rv0, w1) = SetMulticastOptions p s w
      in if isl rv0 then (rv0, s, w1)
         else
           let (rv, w2) = DoBind p s addr w1
           in if isl rv then (rv, s, w2)
              else (rv, s\<lparr>is_connected := True, local_address := None\<rparr>, w2))"

text \<open>
  The close of the descriptor in \<^verbatim>\<open>Close\<close>: the guarded close where the descriptor is
  guarded (\<^verbatim>\<open>IS_APPLE\<close> and not \<^verbatim>\<open>CRONET_BUILD\<close>), the plain \<^verbatim>\<open>close\<close> elsewhere.
\<close>

definition close_descriptor :: "platform \<Rightarrow> int \<Rightarrow> world \<Rightarrow> fatal + world" where
  "close_descriptor p fd w =
     (if IS_APPLE p \<and> \<not> CRONET_BUILD p then
        let (r0, w1) = sys (sys_getsockopt fd SOL_SOCKET SO_ERROR) w;
            (r, w2) = sys (guarded_close_np fd) w1
        in if ret r \<noteq> 0 \<and> \<not> (errno r = ENOTCONN \<or> errno r = EPROTOTYPE)
           then Inl CheckFailed else Inr w2
      else
        let (r, w1) = sys (sys_close fd) w
        in if ret r = 0 then Inr w1 else Inl CheckFailed)"

definition Close :: "platform \<Rightarrow> UDPSocketPosix \<Rightarrow> world \<Rightarrow> fatal + UDPSocketPosix \<times> world" where
  "Close p s w =
     (if dont_close s then Inl CheckFailed
      else
        let w0 = OwnedUDPSocketCount_Reset (owned_socket_count s) w;
            s0 = s\<lparr>owned_socket_count := False\<rparr>
        in if socket s0 = kInvalidSocket then Inr (s0, w0)
           else
             let s1 = s0\<lparr>read_buf := None, read_buf_len := 0, read_callback := None,
                         recv_from_address := None, write_buf := None, write_buf_len := 0,
                         write_callback := None, send_to_address := None\<rparr>;
                 s2 = s1\<lparr>read_socket_watcher := False, write_socket_watcher := False\<rparr>
             in if socket_hash s2 \<noteq> GetSocketFDHash (socket s2) then Inl CheckFailed
                else
                  (case close_descriptor p (socket s2) w0 of
                     Inl f \<Rightarrow> Inl f
                   | Inr w1 \<Rightarrow>
                       let s3 = s2\<lparr>socket := kInvalidSocket, addr_family := AF_UNSPEC,
                                   is_connected := False, tag := SocketTag_default\<rparr>;
                           (m, w2) = OnClose (received_activity_monitor s3) w1
                       in Inr (s3\<lparr>received_activity_monitor := m\<rparr>, w2)))"

text \<open>
  The guard that \<^verbatim>\<open>Open\<close> puts on a new descriptor where descriptors are guarded; the
  \<^verbatim>\<open>PCHECK\<close> fails when the call does.
\<close>

definition guard_descriptor :: "platform \<Rightarrow> int \<Rightarrow> world \<Rightarrow> fatal + world" where
  "guard_descriptor p fd w =
     (if IS_APPLE p \<and> \<not> CRONET_BUILD p then
        let (g, w1) = sys (change_fdguard_np fd) w
        in if ret g = 0 then Inr w1 else Inl CheckFailed
      else Inr w)"

text \<open>
  \<^verbatim>\<open>Open\<close>. The token is a local of the function until the last statement moves it into
  the socket: every earlier return releases it. \<^verbatim>\<open>base::SetNonBlocking\<close> succeeds when
  its call returns zero; \<^verbatim>\<open>tag_.Apply\<close> is recorded in \<open>tags_applied\<close>.
\<close>

definition Open ::
  "platform \<Rightarrow> UDPSocketPosix \<Rightarrow> AddressFamily \<Rightarrow> world
     \<Rightarrow> fatal + net_result \<times> UDPSocketPosix \<times> world" where
  "Open p s address_family w =
     (let (owned, w1) = TryAcquireGlobalUDPSocketCount w
      in if \<not> owned then Inr (Inl ERR_INSUFFICIENT_RESOURCES, s, w1)
         else
           let s1 = s\<lparr>addr_family := ConvertAddressFamily address_family\<rparr>;
               (r, w2) = sys (CreatePlatformSocket (addr_family s1)) w1;
               s2 = s1\<lparr>socket := ret r\<rparr>
           in if socket s2 = kInvalidSocket
              then Inr (Inl (MapSystemError p (errno r)), s2, OwnedUDPSocketCount_Reset owned w2)
              else
                (case guard_descriptor p (socket s2) w2 of
                   Inl f \<Rightarrow> Inl f
                 | Inr w3 \<Rightarrow>
                     let s3 = s2\<lparr>socket_hash := GetSocketFDHash (socket s2)\<rparr>;
                         (nb, w4) = sys (SetNonBlocking (socket s3)) w3
                     in if ret nb \<noteq> 0 then
                          (let err = MapSystemError p (errno nb)
                           in case Close p s3 w4 of
                                Inl f \<Rightarrow> Inl f
                              | Inr (s4, w5) \<Rightarrow>
                                  Inr (Inl err, s4, OwnedUDPSocketCount_Reset owned w5))
                        else
                          let w5 = (if tag s3 \<noteq> SocketTag_default
                                    then w4\<lparr>tags_applied := tags_applied w4 @ [(tag s3, socket s3)]\<rparr>
                                    else w4);
                              w6 = OwnedUDPSocketCount_Reset (owned_socket_count s3) w5
                          in Inr (OK, s3\<lparr>owned_socket_count := owned\<rparr>, w6)))"

text \<open>
  \<^verbatim>\<open>LogRead\<close>, without the net log: a byte count goes to the process-wide counter,
  directly or through the monitor.
\<close>

definition LogRead :: "UDPSocketPosix \<Rightarrow> net_result \<Rightarrow> world \<Rightarrow> UDPSocketPosix \<times> world" where
  "LogRead s result w =
     (case result of
        Inl e \<Rightarrow> (s, w)
      | Inr n \<Rightarrow>
          if always_update_bytes_received s then (s, IncrementBytesReceived (nat n) w)
          else
            let (m, w') = Increment (word_of_int n) (received_activity_monitor s) w
            in (s\<lparr>received_activity_monitor := m\<rparr>, w'))"

text \<open>
  The receive functions take the buffer, its length and the caller's \<^verbatim>\<open>IPEndPoint*\<close>
  (\<open>None\<close> for \<^verbatim>\<open>nullptr\<close>); what they store through that pointer is in
  \<open>out_endpoints\<close>. The fast path copies \<^verbatim>\<open>*remote_address_\<close>, which is not null on the
  one path that calls it.
\<close>

definition InternalRecvFromConnectedSocket ::
  "platform \<Rightarrow> UDPSocketPosix \<Rightarrow> nat \<Rightarrow> int \<Rightarrow> nat option \<Rightarrow> world
     \<Rightarrow> net_result \<times> UDPSocketPosix \<times> world" where
  "InternalRecvFromConnectedSocket p s buf buf_len addr w =
     (let (r, w1) = sys (sys_read (socket s) buf buf_len) w;
          bytes_transferred = ret r
      in if bytes_transferred < 0 then
           (let result = Inl (MapSystemError p (errno r))
            in if result = Inl ERR_IO_PENDING then (result, s, w1)
               else let (s', w') = LogRead s result w1 in (result, s', w'))
         else if bytes_transferred = buf_len then
           (let result = Inl ERR_MSG_TOO_BIG;
                (s', w') = LogRead s result w1
            in (result, s', w'))
         else
           (let result = Inr bytes_transferred;
                w2 = (case addr of
                        None \<Rightarrow> w1
                      | Some a \<Rightarrow> w1\<lparr>out_endpoints := (out_endpoints w1)(a := remote_address s)\<rparr>);
                (s', w') = LogRead s result w2
            in (result, s', w')))"

definition InternalRecvFromNonConnectedSocket ::
  "platform \<Rightarrow> UDPSocketPosix \<Rightarrow> nat \<Rightarrow> int \<Rightarrow> nat option \<Rightarrow> world
     \<Rightarrow> net_result \<times> UDPSocketPosix \<times> world" where
  "InternalRecvFromNonConnectedSocket p s buf buf_len addr w =
     (let (r, w1) = sys (sys_recvmsg (socket s) buf buf_len) w;
          bytes_transferred = ret r
      in if bytes_transferred < 0 then
           (let result = Inl (MapSystemError p (errno r))
            in if result = Inl ERR_IO_PENDING then (result, s, w1)
               else let (s', w') = LogRead s result w1 in (result, s', w'))
         else
           (let (result, w2) =
                  (if msg_trunc r then (Inl ERR_MSG_TOO_BIG, w1)
                   else
                     (case addr of
                        None \<Rightarrow> (Inr bytes_transferred, w1)
                      | Some a \<Rightarrow>
                          (case msg_name r of
                             None \<Rightarrow> (Inl ERR_ADDRESS_INVALID, w1)
                           | Some e \<Rightarrow>
                               (Inr bytes_transferred,
                                w1\<lparr>out_endpoints := (out_endpoints w1)(a := Some e)\<rparr>))));
                (s', w') = LogRead s result w2
            in (result, s', w')))"

definition InternalRecvFrom ::
  "platform \<Rightarrow> UDPSocketPosix \<Rightarrow> nat \<Rightarrow> int \<Rightarrow> nat option \<Rightarrow> world
     \<Rightarrow> net_result \<times> UDPSocketPosix \<times> world" where
  "InternalRecvFrom p s buf buf_len addr w =
     (if experimental_recv_optimization_enabled s \<and> is_connected s \<and> remote_address s \<noteq> None
      then InternalRecvFromConnectedSocket p s buf buf_len addr w
      else InternalRecvFromNonConnectedSocket p s buf buf_len addr w)"

text \<open>
  \<^verbatim>\<open>InternalSendTo\<close>, without the net log (\<^verbatim>\<open>LogWrite\<close> writes nothing else).
\<close>

definition InternalSendTo ::
  "platform \<Rightarrow> UDPSocketPosix \<Rightarrow> nat \<Rightarrow> int \<Rightarrow> IPEndPoint option \<Rightarrow> world
     \<Rightarrow> net_result \<times> world" where
  "InternalSendTo p s buf buf_len addr w =
     (if (case addr of None \<Rightarrow> False | Some e \<Rightarrow> \<not> ToSockAddr e)
      then (Inl ERR_ADDRESS_INVALID, w)
      else
        let (r, w1) = sys (sys_sendto (socket s) buf buf_len (sendto_flags s) addr) w;
            result = (if ret r < 0 then Inl (MapSystemError p (errno r)) else Inr (ret r))
        in (result, w1))"

text \<open>
  Running a completion callback: the callback is moved out of the socket and run with the
  result, which \<open>callbacks_run\<close> records. What the callback does in turn is its owner's
  business and not part of the engine. Running a null callback, like dereferencing a null
  buffer in \<^verbatim>\<open>DidCompleteRead\<close> and \<^verbatim>\<open>DidCompleteWrite\<close>, ends the process; the
  watchers call these functions with a callback stored only.
\<close>

definition DoReadCallback ::
  "UDPSocketPosix \<Rightarrow> net_result \<Rightarrow> world \<Rightarrow> fatal + UDPSocketPosix \<times> world" where
  "DoReadCallback s rv w =
     (case read_callback s of
        None \<Rightarrow> Inl CheckFailed
      | Some c \<Rightarrow>
          Inr (s\<lparr>read_callback := None\<rparr>, w\<lparr>callbacks_run := callbacks_run w @ [(c, rv)]\<rparr>))"

definition DoWriteCallback ::
  "UDPSocketPosix \<Rightarrow> net_result \<Rightarrow> world \<Rightarrow> fatal + UDPSocketPosix \<times> world" where
  "DoWriteCallback s rv w =
     (case write_callback s of
        None \<Rightarrow> Inl CheckFailed
      | Some c \<Rightarrow>
          Inr (s\<lparr>write_callback := None\<rparr>, w\<lparr>callbacks_run := callbacks_run w @ [(c, rv)]\<rparr>))"

definition DidCompleteRead ::
  "platform \<Rightarrow> UDPSocketPosix \<Rightarrow> world \<Rightarrow> fatal + UDPSocketPosix \<times> world" where
  "DidCompleteRead p s w =
     (case read_buf s of
        None \<Rightarrow> Inl CheckFailed
      | Some buf \<Rightarrow>
          let (result, s1, w1) = InternalRecvFrom p s buf (read_buf_len s) (recv_from_address s) w
          in if result \<noteq> Inl ERR_IO_PENDING then
               DoReadCallback
                 (s1\<lparr>read_buf := None, read_buf_len := 0, recv_from_address := None,
                     read_socket_watcher := False\<rparr>) result w1
             else Inr (s1, w1))"

definition DidCompleteWrite ::
  "platform \<Rightarrow> UDPSocketPosix \<Rightarrow> world \<Rightarrow> fatal + UDPSocketPosix \<times> world" where
  "DidCompleteWrite p s w =
     (case write_buf s of
        None \<Rightarrow> Inl CheckFailed
      | Some buf \<Rightarrow>
          let (result, w1) = InternalSendTo p s buf (write_buf_len s) (send_to_address s) w
          in if result \<noteq> Inl ERR_IO_PENDING then
               DoWriteCallback
                 (s\<lparr>write_buf := None, write_buf_len := 0, send_to_address := None,
                    write_socket_watcher := False\<rparr>) result w1
             else Inr (s, w1))"

text \<open>What the watchers do when the descriptor is ready.\<close>

definition OnFileCanReadWithoutBlocking ::
  "platform \<Rightarrow> UDPSocketPosix \<Rightarrow> world \<Rightarrow> fatal + UDPSocketPosix \<times> world" where
  "OnFileCanReadWithoutBlocking p s w =
     (if read_callback s \<noteq> None then DidCompleteRead p s w else Inr (s, w))"

definition OnFileCanWriteWithoutBlocking ::
  "platform \<Rightarrow> UDPSocketPosix \<Rightarrow> world \<Rightarrow> fatal + UDPSocketPosix \<times> world" where
  "OnFileCanWriteWithoutBlocking p s w =
     (if write_callback s \<noteq> None then DidCompleteWrite p s w else Inr (s, w))"

text \<open>
  \<^verbatim>\<open>RecvFrom\<close> and \<^verbatim>\<open>SendToOrWrite\<close>: an operation that would block registers the watcher
  and stores the buffer, its length, the address and the callback \<open>callback\<close>.
\<close>

definition RecvFrom ::
  "platform \<Rightarrow> UDPSocketPosix \<Rightarrow> nat \<Rightarrow> int \<Rightarrow> nat option \<Rightarrow> nat \<Rightarrow> world
     \<Rightarrow> fatal + net_result \<times> UDPSocketPosix \<times> world" where
  "RecvFrom p s buf buf_len addr callback w =
     (if read_callback s \<noteq> None then Inl CheckFailed
      else
        let (nread, s1, w1) = InternalRecvFrom p s buf buf_len addr w
        in if nread \<noteq> Inl ERR_IO_PENDING then Inr (nread, s1, w1)
           else
             let (r, w2) = sys (WatchFileDescriptor (socket s1) WATCH_READ) w1
             in if ret r \<noteq> 0 then Inr (Inl (MapSystemError p (errno r)), s1, w2)
                else
                  Inr (Inl ERR_IO_PENDING,
                       s1\<lparr>read_socket_watcher := True, read_buf := Some buf,
                          read_buf_len := buf_len, recv_from_address := addr,
                          read_callback := Some callback\<rparr>,
                       w2))"

definition SendToOrWrite ::
  "platform \<Rightarrow> UDPSocketPosix \<Rightarrow> nat \<Rightarrow> int \<Rightarrow> IPEndPoint option \<Rightarrow> nat \<Rightarrow> world
     \<Rightarrow> fatal + net_result \<times> UDPSocketPosix \<times> world" where
  "SendToOrWrite p s buf buf_len addr callback w =
     (if write_callback s \<noteq> None then Inl CheckFailed
      else
        let (result, w1) = InternalSendTo p s buf buf_len addr w
        in if result \<noteq> Inl ERR_IO_PENDING then Inr (result, s, w1)
           else
             let (r, w2) = sys (WatchFileDescriptor (socket s) WATCH_WRITE) w1
             in if ret r \<noteq> 0 then Inr (Inl (MapSystemError p (errno r)), s, w2)
                else
                  Inr (Inl ERR_IO_PENDING,
                       s\<lparr>write_socket_watcher := True, write_buf := Some buf,
                         write_buf_len := buf_len,
                         send_to_address := (case addr of None \<Rightarrow> send_to_address s
                                             | Some e \<Rightarrow> Some e),
                         write_callback := Some callback\<rparr>,
                       w2))"

definition JoinGroup :: "platform \<Rightarrow> UDPSocketPosix \<Rightarrow> IPAddress \<Rightarrow> world \<Rightarrow> net_result \<times> world" where
  "JoinGroup p s group_address w =
     (if \<not> is_connected s then (Inl ERR_SOCKET_NOT_CONNECTED, w)
      else if length group_address = kIPv4AddressSize then
        (if addr_family s \<noteq> AF_INET then (Inl ERR_ADDRESS_INVALID, w)
         else
           let (r, w1) = sys (sys_setsockopt (socket s) IPPROTO_IP IP_ADD_MEMBERSHIP
                                (Mreqn (multicast_interface s) 0 group_address)) w
           in if ret r < 0 then (Inl (MapSystemError p (errno r)), w1) else (OK, w1))
      else if length group_address = kIPv6AddressSize then
        (if addr_family s \<noteq> AF_INET6 then (Inl ERR_ADDRESS_INVALID, w)
         else
           let (r, w1) = sys (sys_setsockopt (socket s) IPPROTO_IPV6 IPV6_JOIN_GROUP
                                (Mreq6 (multicast_interface s) group_address)) w
           in if ret r < 0 then (Inl (MapSystemError p (errno r)), w1) else (OK, w1))
      else (Inl ERR_ADDRESS_INVALID, w))"

definition LeaveGroup :: "platform \<Rightarrow> UDPSocketPosix \<Rightarrow> IPAddress \<Rightarrow> world \<Rightarrow> net_result \<times> world" where
  "LeaveGroup p s group_address w =
     (if \<not> is_connected s then (Inl ERR_SOCKET_NOT_CONNECTED, w)
      else if length group_address = kIPv4AddressSize then
        (if addr_family s \<noteq> AF_INET then (Inl ERR_ADDRESS_INVALID, w)
         else
           let (r, w1) = sys (sys_setsockopt (socket s) IPPROTO_IP IP_DROP_MEMBERSHIP
                                (Mreqn (multicast_interface s) 0 group_address)) w
           in if ret r < 0 then (Inl (MapSystemError p (errno r)), w1) else (OK, w1))
      else if length group_address = kIPv6AddressSize then
        (if addr_family s \<noteq> AF_INET6 then (Inl ERR_ADDRESS_INVALID, w)
         else
           let ipv6mr_interface = (if IS_FUCHSIA p then multicast_interface s else 0);
               (r, w1) = sys (sys_setsockopt (socket s) IPPROTO_IPV6 IPV6_LEAVE_GROUP
                                (Mreq6 ipv6mr_interface group_address)) w
           in if ret r < 0 then (Inl (MapSystemError p (errno r)), w1) else (OK, w1))
      else (Inl ERR_ADDRESS_INVALID, w))"

definition SetMulticastTimeToLive :: "UDPSocketPosix \<Rightarrow> int \<Rightarrow> net_result \<times> UDPSocketPosix" where
  "SetMulticastTimeToLive s time_to_live =
     (if is_connected s then (Inl ERR_SOCKET_IS_CONNECTED, s)
      else if time_to_live < 0 \<or> time_to_live > 255 then (Inl ERR_INVALID_ARGUMENT, s)
      else (OK, s\<lparr>multicast_time_to_live := time_to_live\<rparr>))"

text \<open>
  \<^verbatim>\<open>DiffServCodePoint\<close> is an enumeration of net/base (not under src/) with
  \<^verbatim>\<open>DSCP_NO_CHANGE = -1\<close> and the code points from 0 to 63.
\<close>

definition DSCP_NO_CHANGE :: int where
  "DSCP_NO_CHANGE = - 1"

definition SetDiffServCodePoint :: "platform \<Rightarrow> UDPSocketPosix \<Rightarrow> int \<Rightarrow> world \<Rightarrow> net_result \<times> world" where
  "SetDiffServCodePoint p s dscp w =
     (if dscp = DSCP_NO_CHANGE then (OK, w)
      else
        let dscp_and_ecn = push_bit 2 dscp;
            (r4, w1) = sys (sys_setsockopt (socket s) IPPROTO_IP IP_TOS (IntVal dscp_and_ecn)) w;
            (r, w2) =
              (if addr_family s = AF_INET6
               then sys (sys_setsockopt (socket s) IPPROTO_IPV6 IPV6_TCLASS (IntVal dscp_and_ecn)) w1
               else (r4, w1))
        in if ret r < 0 then (Inl (MapSystemError p (errno r)), w2) else (OK, w2))"

text \<open>
  The token of the admission gate is held by open sockets only: a socket without a
  descriptor holds none.
\<close>

definition token_only_while_open :: "UDPSocketPosix \<Rightarrow> bool" where
  "token_only_while_open s \<longleftrightarrow> socket s \<noteq> kInvalidSocket \<or> \<not> owned_socket_count s"

subsection \<open>Sockets, kernels and builds for the examples\<close>

text \<open>
  The socket as its constructor leaves it, for a bind type (the members the constructor
  does not name have the initial values of their declarations).
\<close>

definition UDPSocketPosix_new :: "BindType \<Rightarrow> UDPSocketPosix" where
  "UDPSocketPosix_new bt =
     \<lparr>socket = kInvalidSocket, socket_hash = 0, addr_family = AF_UNSPEC, is_connected = False,
      bind_type = bt, socket_options = SOCKET_OPTION_MULTICAST_LOOP, sendto_flags = 0,
      multicast_interface = 0,
      multicast_time_to_live = 1, local_address = None, remote_address = None,
      read_socket_watcher = False, write_socket_watcher = False,
      read_buf = None, read_buf_len = 0, recv_from_address = None,
      write_buf = None, write_buf_len = 0, send_to_address = None,
      read_callback = None, write_callback = None, tag = SocketTag_default,
      owned_socket_count = False, received_activity_monitor = monitor_init,
      experimental_recv_optimization_enabled = False, always_update_bytes_received = False,
      dont_close = False\<rparr>"

text \<open>A call that succeeds with the value \<open>v\<close>, and one that fails with an error number.\<close>

definition returns :: "int \<Rightarrow> reply" where
  "returns v = \<lparr>ret = v, errno = Errno 0, msg_name = None, msg_trunc = False\<rparr>"

definition fails :: "errno_t \<Rightarrow> reply" where
  "fails e = \<lparr>ret = - 1, errno = e, msg_name = None, msg_trunc = False\<rparr>"

text \<open>A world at time zero with the kernel \<open>k\<close>, nothing logged, and room for 6000 sockets.\<close>

definition world_of :: "(nat \<Rightarrow> syscall \<Rightarrow> reply) \<Rightarrow> world" where
  "world_of k =
     \<lparr>sys_reply = k, sys_log = [], rand_src = (\<lambda>n. 7919 * n + 40000), rand_used = 0, now = 0,
      udp_socket_count = 0, udp_socket_limit = 6000, bytes_received = 0,
      callbacks_run = [], out_endpoints = (\<lambda>a. None), tags_applied = []\<rparr>"

text \<open>
  A build for neither Apple, ChromeOS nor Fuchsia, with the entries of
  \<^verbatim>\<open>MapSystemError\<close> the examples meet.
\<close>

fun example_MapSystemError :: "errno_t \<Rightarrow> net_error" where
  "example_MapSystemError EAGAIN = ERR_IO_PENDING"
| "example_MapSystemError EADDRINUSE = ERR_ADDRESS_IN_USE"
| "example_MapSystemError EINVAL = ERR_INVALID_ARGUMENT"
| "example_MapSystemError ENOTCONN = ERR_SOCKET_NOT_CONNECTED"
| "example_MapSystemError EADDRNOTAVAIL = ERR_ADDRESS_INVALID"
| "example_MapSystemError EPROTOTYPE = ERR_CODE (- 2)"
| "example_MapSystemError (Errno n) = ERR_CODE (- 2)"

definition posix_build :: platform where
  "posix_build =
     \<lparr>IS_APPLE = False, CRONET_BUILD = False, IS_CHROMEOS_ASH = False, IS_FUCHSIA = False,
      MapSystemError = example_MapSystemError\<rparr>"

text \<open>
  An open IPv4 socket on descriptor 3, connected to 192.0.2.1:4433, holding its token,
  with the receive optimisation on; and the same socket for IPv6.
\<close>

definition example_peer :: IPEndPoint where
  "example_peer = \<lparr>address = [192, 0, 2, 1], port = 4433\<rparr>"

definition example_socket :: UDPSocketPosix where
  "example_socket =
     (UDPSocketPosix_new DEFAULT_BIND)
       \<lparr>socket := 3, socket_hash := GetSocketFDHash 3, addr_family := AF_INET,
        is_connected := True, remote_address := Some example_peer,
        owned_socket_count := True, experimental_recv_optimization_enabled := True\<rparr>"

definition example_socket6 :: UDPSocketPosix where
  "example_socket6 = example_socket\<lparr>addr_family := AF_INET6\<rparr>"

text \<open>Kernels: one where every call returns \<open>v\<close>, one where a chosen call fails.\<close>

definition kernel_returning :: "int \<Rightarrow> nat \<Rightarrow> syscall \<Rightarrow> reply" where
  "kernel_returning v n c = returns v"

definition kernel_failing :: "(syscall \<Rightarrow> bool) \<Rightarrow> errno_t \<Rightarrow> nat \<Rightarrow> syscall \<Rightarrow> reply" where
  "kernel_failing bad e n c = (if bad c then fails e else returns 0)"

fun is_ipv6_option :: "syscall \<Rightarrow> bool" where
  "is_ipv6_option (sys_setsockopt fd IPPROTO_IPV6 nm v) = True"
| "is_ipv6_option c = False"

fun is_ipv4_option :: "syscall \<Rightarrow> bool" where
  "is_ipv4_option (sys_setsockopt fd IPPROTO_IP nm v) = True"
| "is_ipv4_option c = False"

text \<open>
  An open IPv4 socket that is neither bound nor connected, with a tag of its own.
\<close>

definition example_open_socket :: "BindType \<Rightarrow> UDPSocketPosix" where
  "example_open_socket bt =
     (UDPSocketPosix_new bt)
       \<lparr>socket := 3, socket_hash := GetSocketFDHash 3, addr_family := AF_INET,
        tag := (1000, 7), owned_socket_count := True\<rparr>"

fun is_connect :: "syscall \<Rightarrow> bool" where
  "is_connect (sys_connect fd e) = True"
| "is_connect c = False"

fun is_bind :: "syscall \<Rightarrow> bool" where
  "is_bind (sys_bind fd e) = True"
| "is_bind c = False"

fun is_random_port_bind :: "syscall \<Rightarrow> bool" where
  "is_random_port_bind (sys_bind fd e) = (kPortStart \<le> port e \<and> port e \<le> kPortEnd)"
| "is_random_port_bind c = False"

text \<open>A kernel that hands out descriptor 5 and then cannot make it non-blocking.\<close>

fun nonblocking_fails_kernel :: "nat \<Rightarrow> syscall \<Rightarrow> reply" where
  "nonblocking_fails_kernel n (CreatePlatformSocket f) = returns 5"
| "nonblocking_fails_kernel n (SetNonBlocking fd) = fails EINVAL"
| "nonblocking_fails_kernel n c = returns 0"

text \<open>
  The connected example socket with a read pending (buffer 1 of 512 bytes, callback 9,
  the caller's endpoint pointer 7), both watchers registered, and 100 bytes that the
  monitor has not reported yet.
\<close>

definition example_pending_socket :: UDPSocketPosix where
  "example_pending_socket =
     example_socket
       \<lparr>read_socket_watcher := True, write_socket_watcher := True,
        read_buf := Some 1, read_buf_len := 512, recv_from_address := Some 7,
        read_callback := Some 9,
        received_activity_monitor :=
          \<lparr>bytes = 100, increments = 3,
           timer = \<lparr>is_running = True, delay = 100, desired_run_time = 100\<rparr>\<rparr>\<rparr>"

section \<open>Properties\<close>

subsection \<open>The world outside the counters is left alone by the monitor\<close>

lemma Update_world:
  "snd (Update m w) = w\<lparr>bytes_received := bytes_received (snd (Update m w))\<rparr>"
  by (simp add: Update_def IncrementBytesReceived_def)

lemma Increment_world:
  "snd (Increment n m w) = w\<lparr>bytes_received := bytes_received (snd (Increment n m w))\<rparr>"
  by (simp add: Increment_def Update_def IncrementBytesReceived_def Let_def split_beta)

lemma LogRead_world:
  "snd (LogRead s r w) = w\<lparr>bytes_received := bytes_received (snd (LogRead s r w))\<rparr>"
proof (cases r)
  case (Inl e)
  then show ?thesis by (simp add: LogRead_def)
next
  case (Inr n)
  show ?thesis
  proof (cases "always_update_bytes_received s")
    case True
    with Inr show ?thesis by (simp add: LogRead_def IncrementBytesReceived_def)
  next
    case False
    with Inr show ?thesis
      using Increment_world [of "word_of_int n" "received_activity_monitor s" w]
      by (simp add: LogRead_def split_beta)
  qed
qed

lemma LogRead_out_endpoints: "out_endpoints (snd (LogRead s r w)) = out_endpoints w"
  by (subst LogRead_world) simp

lemma LogRead_sys_log: "sys_log (snd (LogRead s r w)) = sys_log w"
  by (subst LogRead_world) simp

lemmas example_defs =
  example_socket_def example_socket6_def example_peer_def UDPSocketPosix_new_def
  world_of_def posix_build_def kernel_returning_def kernel_failing_def returns_def fails_def
  monitor_init_def SocketTag_default_def kInvalidSocket_def example_open_socket_def

subsection \<open>Evaluating the examples\<close>

lemma world_of_simps:
  "sys_reply (world_of k) = k"
  "sys_log (world_of k) = []"
  "rand_src (world_of k) = (\<lambda>n. 7919 * n + 40000)"
  "rand_used (world_of k) = 0"
  "now (world_of k) = 0"
  "udp_socket_count (world_of k) = 0"
  "udp_socket_limit (world_of k) = 6000"
  "bytes_received (world_of k) = 0"
  "callbacks_run (world_of k) = []"
  "out_endpoints (world_of k) = (\<lambda>a. None)"
  "tags_applied (world_of k) = []"
  by (simp_all add: world_of_def)

lemma reply_simps:
  "ret (returns v) = v"
  "ret (fails e) = - 1"
  "errno (fails e) = e"
  "msg_trunc (returns v) = False"
  "msg_name (returns v) = None"
  by (simp_all add: returns_def fails_def)

lemma posix_build_simps:
  "IS_APPLE posix_build = False"
  "CRONET_BUILD posix_build = False"
  "IS_CHROMEOS_ASH posix_build = False"
  "IS_FUCHSIA posix_build = False"
  "MapSystemError posix_build = example_MapSystemError"
  by (simp_all add: posix_build_def)

lemma example_open_socket_simps:
  "socket (example_open_socket bt) = 3"
  "socket_hash (example_open_socket bt) = GetSocketFDHash 3"
  "addr_family (example_open_socket bt) = AF_INET"
  "is_connected (example_open_socket bt) = False"
  "bind_type (example_open_socket bt) = bt"
  "socket_options (example_open_socket bt) = SOCKET_OPTION_MULTICAST_LOOP"
  "multicast_interface (example_open_socket bt) = 0"
  "multicast_time_to_live (example_open_socket bt) = 1"
  "tag (example_open_socket bt) = (1000, 7)"
  "owned_socket_count (example_open_socket bt) = True"
  "dont_close (example_open_socket bt) = False"
  "received_activity_monitor (example_open_socket bt) = monitor_init"
  by (simp_all add: example_open_socket_def UDPSocketPosix_new_def)

lemma example_peer_simps:
  "ToSockAddr example_peer"
  "GetSockAddrFamily example_peer = AF_INET"
  by (simp_all add: ToSockAddr_def GetSockAddrFamily_def example_peer_def kIPv4AddressSize_def)

lemmas example_simps =
  world_of_simps reply_simps posix_build_simps example_open_socket_simps example_peer_simps
  kernel_returning_def kernel_failing_def

lemma SetMulticastOptions_example:
  "SetMulticastOptions posix_build (example_open_socket bt) w = (OK, w)"
  by (simp add: SetMulticastOptions_def example_open_socket_simps
        SOCKET_OPTION_MULTICAST_LOOP_def IP_DEFAULT_MULTICAST_TTL_def)

lemma SetMulticastOptions_example_failing:
  "SetMulticastOptions posix_build ((example_open_socket bt)\<lparr>socket_options := 0\<rparr>)
     (world_of (kernel_failing is_ipv4_option EINVAL)) =
   (Inl ERR_INVALID_ARGUMENT,
    (world_of (kernel_failing is_ipv4_option EINVAL))
      \<lparr>sys_log := [sys_setsockopt 3 IPPROTO_IP IP_MULTICAST_LOOP (UCharVal 0)]\<rparr>)"
  by (simp add: SetMulticastOptions_def example_simps sys_def)

subsection \<open>Receiving on the connected fast path\<close>

text \<open>
  C2. On the fast path (optimisation on, socket connected, remote endpoint cached) the
  engine issues one \<^verbatim>\<open>read\<close>. When it returns the byte count \<open>n\<close>: if \<open>n\<close> is the
  length of the buffer the result is \<open>ERR_MSG_TOO_BIG\<close> and nothing is stored through the
  caller's endpoint pointer; if \<open>n\<close> is smaller the result is \<open>n\<close>, and the cached remote
  endpoint is stored through the pointer when there is one.
\<close>

theorem InternalRecvFrom_fast_path_truncation:
  assumes "experimental_recv_optimization_enabled s" and "is_connected s"
    and "remote_address s = Some ra"
    and "0 \<le> n" and "n \<le> buf_len"
    and "ret (sys_reply w (length (sys_log w)) (sys_read (socket s) buf buf_len)) = n"
  shows "(let (result, s', w') = InternalRecvFrom p s buf buf_len addr w
          in sys_log w' = sys_log w @ [sys_read (socket s) buf buf_len]
           \<and> (if n = buf_len
              then result = Inl ERR_MSG_TOO_BIG \<and> out_endpoints w' = out_endpoints w
              else result = Inr n
                 \<and> out_endpoints w' =
                     (case addr of None \<Rightarrow> out_endpoints w
                      | Some a \<Rightarrow> (out_endpoints w)(a := Some ra))))"
  using assms
  by (cases addr)
     (auto simp add: InternalRecvFrom_def InternalRecvFromConnectedSocket_def Let_def split_beta
        sys_def LogRead_out_endpoints LogRead_sys_log)

theorem InternalRecvFrom_fast_path_truncation_witness:
  "fst (InternalRecvFrom posix_build example_socket 1 512 (Some 7)
          (world_of (kernel_returning 512))) = Inl ERR_MSG_TOO_BIG
 \<and> fst (InternalRecvFrom posix_build example_socket 1 1024 (Some 7)
          (world_of (kernel_returning 512))) = Inr 512
 \<and> out_endpoints (snd (snd (InternalRecvFrom posix_build example_socket 1 1024 (Some 7)
          (world_of (kernel_returning 512))))) 7 = Some example_peer"
  using InternalRecvFrom_fast_path_truncation
          [of example_socket example_peer 512 512 "world_of (kernel_returning 512)" 1
              posix_build "Some 7"]
        InternalRecvFrom_fast_path_truncation
          [of example_socket example_peer 512 1024 "world_of (kernel_returning 512)" 1
              posix_build "Some 7"]
  by (simp add: split_beta example_socket_def UDPSocketPosix_new_def world_of_def
        kernel_returning_def returns_def)

subsection \<open>Multicast time to live\<close>

text \<open>
  C6 (amended). On a connected socket \<^verbatim>\<open>SetMulticastTimeToLive\<close> fails with
  \<open>ERR_SOCKET_IS_CONNECTED\<close> for every value, 256 and -1 included, and stores nothing.
  On a socket that is not connected, 256 and -1 fail with \<open>ERR_INVALID_ARGUMENT\<close>, and 0
  and 255 succeed and are stored.
\<close>

theorem SetMulticastTimeToLive_connection_then_range:
  "(is_connected s \<longrightarrow> SetMulticastTimeToLive s ttl = (Inl ERR_SOCKET_IS_CONNECTED, s))
 \<and> (\<not> is_connected s \<longrightarrow>
        SetMulticastTimeToLive s 256 = (Inl ERR_INVALID_ARGUMENT, s)
      \<and> SetMulticastTimeToLive s (- 1) = (Inl ERR_INVALID_ARGUMENT, s)
      \<and> SetMulticastTimeToLive s 0 = (OK, s\<lparr>multicast_time_to_live := 0\<rparr>)
      \<and> SetMulticastTimeToLive s 255 = (OK, s\<lparr>multicast_time_to_live := 255\<rparr>))"
  by (simp add: SetMulticastTimeToLive_def)

theorem SetMulticastTimeToLive_connection_then_range_witness:
  "SetMulticastTimeToLive example_socket 0 = (Inl ERR_SOCKET_IS_CONNECTED, example_socket)
 \<and> SetMulticastTimeToLive (UDPSocketPosix_new DEFAULT_BIND) 256
      = (Inl ERR_INVALID_ARGUMENT, UDPSocketPosix_new DEFAULT_BIND)
 \<and> multicast_time_to_live (snd (SetMulticastTimeToLive (UDPSocketPosix_new DEFAULT_BIND) 255))
      = 255"
  using SetMulticastTimeToLive_connection_then_range [where s = example_socket and ttl = 0]
        SetMulticastTimeToLive_connection_then_range
          [where s = "UDPSocketPosix_new DEFAULT_BIND" and ttl = 0]
  by (simp add: example_socket_def UDPSocketPosix_new_def)

text \<open>
  As the specification states it, the property fails on a connected socket: there 256 is answered with
  \<open>ERR_SOCKET_IS_CONNECTED\<close>, not with \<open>ERR_INVALID_ARGUMENT\<close>.
\<close>

theorem SetMulticastTimeToLive_256_connected_counterexample:
  "fst (SetMulticastTimeToLive example_socket 256) = Inl ERR_SOCKET_IS_CONNECTED
 \<and> fst (SetMulticastTimeToLive example_socket 256) \<noteq> Inl ERR_INVALID_ARGUMENT
 \<and> fst (SetMulticastTimeToLive example_socket (- 1)) \<noteq> Inl ERR_INVALID_ARGUMENT"
  by (simp add: SetMulticastTimeToLive_def example_socket_def UDPSocketPosix_new_def)

subsection \<open>Differentiated services\<close>

text \<open>
  C5 (amended). \<^verbatim>\<open>SetDiffServCodePoint\<close> with \<^verbatim>\<open>DSCP_NO_CHANGE\<close> returns \<open>OK\<close> and
  issues no call. With any other code point it sets \<^verbatim>\<open>IP_TOS\<close> to the code point
  shifted left by two bits, and on a socket of family \<open>AF_INET6\<close> then sets
  \<^verbatim>\<open>IPV6_TCLASS\<close> to the same value. On an \<open>AF_INET6\<close> socket the result of the IPv4
  call is ignored and a failure of the IPv6 call is returned as the mapped error; on any
  other socket a failure of the IPv4 call is returned as the mapped error.
\<close>

theorem SetDiffServCodePoint_last_call_decides:
  "SetDiffServCodePoint p s dscp w =
     (if dscp = DSCP_NO_CHANGE then (OK, w)
      else
        let tos = sys_setsockopt (socket s) IPPROTO_IP IP_TOS (IntVal (push_bit 2 dscp));
            tclass = sys_setsockopt (socket s) IPPROTO_IPV6 IPV6_TCLASS (IntVal (push_bit 2 dscp));
            n = length (sys_log w)
        in if addr_family s = AF_INET6 then
             (if ret (sys_reply w (Suc n) tclass) < 0
              then Inl (MapSystemError p (errno (sys_reply w (Suc n) tclass))) else OK,
              w\<lparr>sys_log := sys_log w @ [tos, tclass]\<rparr>)
           else
             (if ret (sys_reply w n tos) < 0
              then Inl (MapSystemError p (errno (sys_reply w n tos))) else OK,
              w\<lparr>sys_log := sys_log w @ [tos]\<rparr>))"
  by (simp add: SetDiffServCodePoint_def Let_def split_beta sys_def)

text \<open>
  As the specification states it, the property fails on an IPv6 socket: a failure of the IPv6 call is returned, and
  a failure of the IPv4 call is not.
\<close>

theorem SetDiffServCodePoint_ipv6_failure_counterexample:
  "fst (SetDiffServCodePoint posix_build example_socket6 46
          (world_of (kernel_failing is_ipv6_option EINVAL))) = Inl ERR_INVALID_ARGUMENT
 \<and> fst (SetDiffServCodePoint posix_build example_socket6 46
          (world_of (kernel_failing is_ipv4_option EINVAL))) = OK"
  by (simp add: SetDiffServCodePoint_def Let_def split_beta sys_def DSCP_NO_CHANGE_def
        example_defs)

subsection \<open>Multicast group membership\<close>

text \<open>
  C10. \<^verbatim>\<open>JoinGroup\<close> and \<^verbatim>\<open>LeaveGroup\<close> return \<open>ERR_SOCKET_NOT_CONNECTED\<close> on a socket
  that is not connected. On a connected socket they return \<open>ERR_ADDRESS_INVALID\<close> when
  the size of the group address is neither 4 nor 16, or does not go with the family of
  the socket; none of these cases issues a call. Otherwise they issue the one membership
  option of the family and return \<open>OK\<close>, or the mapped error when the call fails.
\<close>

theorem JoinGroup_LeaveGroup_results:
  "(\<not> is_connected s \<longrightarrow>
      JoinGroup p s g w = (Inl ERR_SOCKET_NOT_CONNECTED, w)
    \<and> LeaveGroup p s g w = (Inl ERR_SOCKET_NOT_CONNECTED, w))
 \<and> (is_connected s \<and>
      ((length g \<noteq> kIPv4AddressSize \<and> length g \<noteq> kIPv6AddressSize)
       \<or> (length g = kIPv4AddressSize \<and> addr_family s \<noteq> AF_INET)
       \<or> (length g = kIPv6AddressSize \<and> addr_family s \<noteq> AF_INET6)) \<longrightarrow>
      JoinGroup p s g w = (Inl ERR_ADDRESS_INVALID, w)
    \<and> LeaveGroup p s g w = (Inl ERR_ADDRESS_INVALID, w))
 \<and> (is_connected s \<and> length g = kIPv4AddressSize \<and> addr_family s = AF_INET \<longrightarrow>
      (let join = sys_setsockopt (socket s) IPPROTO_IP IP_ADD_MEMBERSHIP
                    (Mreqn (multicast_interface s) 0 g);
           leave = sys_setsockopt (socket s) IPPROTO_IP IP_DROP_MEMBERSHIP
                    (Mreqn (multicast_interface s) 0 g);
           rj = sys_reply w (length (sys_log w)) join;
           rl = sys_reply w (length (sys_log w)) leave
       in JoinGroup p s g w =
            (if ret rj < 0 then Inl (MapSystemError p (errno rj)) else OK,
             w\<lparr>sys_log := sys_log w @ [join]\<rparr>)
        \<and> LeaveGroup p s g w =
            (if ret rl < 0 then Inl (MapSystemError p (errno rl)) else OK,
             w\<lparr>sys_log := sys_log w @ [leave]\<rparr>)))
 \<and> (is_connected s \<and> length g = kIPv6AddressSize \<and> addr_family s = AF_INET6 \<longrightarrow>
      (let join = sys_setsockopt (socket s) IPPROTO_IPV6 IPV6_JOIN_GROUP
                    (Mreq6 (multicast_interface s) g);
           leave = sys_setsockopt (socket s) IPPROTO_IPV6 IPV6_LEAVE_GROUP
                    (Mreq6 (if IS_FUCHSIA p then multicast_interface s else 0) g);
           rj = sys_reply w (length (sys_log w)) join;
           rl = sys_reply w (length (sys_log w)) leave
       in JoinGroup p s g w =
            (if ret rj < 0 then Inl (MapSystemError p (errno rj)) else OK,
             w\<lparr>sys_log := sys_log w @ [join]\<rparr>)
        \<and> LeaveGroup p s g w =
            (if ret rl < 0 then Inl (MapSystemError p (errno rl)) else OK,
             w\<lparr>sys_log := sys_log w @ [leave]\<rparr>)))"
  by (simp add: JoinGroup_def LeaveGroup_def Let_def split_beta sys_def
        kIPv4AddressSize_def kIPv6AddressSize_def)

theorem JoinGroup_LeaveGroup_results_witness:
  "fst (JoinGroup posix_build (UDPSocketPosix_new DEFAULT_BIND) [224, 0, 0, 251]
          (world_of (kernel_returning 0))) = Inl ERR_SOCKET_NOT_CONNECTED
 \<and> fst (LeaveGroup posix_build example_socket (AllZeros 16)
          (world_of (kernel_returning 0))) = Inl ERR_ADDRESS_INVALID
 \<and> fst (JoinGroup posix_build example_socket [224, 0, 0, 251]
          (world_of (kernel_returning 0))) = OK
 \<and> fst (LeaveGroup posix_build example_socket [224, 0, 0, 251]
          (world_of (kernel_failing is_ipv4_option EADDRNOTAVAIL))) = Inl ERR_ADDRESS_INVALID
 \<and> fst (JoinGroup posix_build example_socket6 (AllZeros 16)
          (world_of (kernel_failing is_ipv6_option EINVAL))) = Inl ERR_INVALID_ARGUMENT"
  using JoinGroup_LeaveGroup_results
          [where s = "UDPSocketPosix_new DEFAULT_BIND" and p = posix_build
             and g = "[224, 0, 0, 251]" and w = "world_of (kernel_returning 0)"]
        JoinGroup_LeaveGroup_results
          [where s = example_socket and p = posix_build and g = "AllZeros 16"
             and w = "world_of (kernel_returning 0)"]
        JoinGroup_LeaveGroup_results
          [where s = example_socket and p = posix_build and g = "[224, 0, 0, 251]"
             and w = "world_of (kernel_returning 0)"]
        JoinGroup_LeaveGroup_results
          [where s = example_socket and p = posix_build and g = "[224, 0, 0, 251]"
             and w = "world_of (kernel_failing is_ipv4_option EADDRNOTAVAIL)"]
        JoinGroup_LeaveGroup_results
          [where s = example_socket6 and p = posix_build and g = "AllZeros 16"
             and w = "world_of (kernel_failing is_ipv6_option EINVAL)"]
  by (simp add: Let_def example_defs AllZeros_def kIPv4AddressSize_def kIPv6AddressSize_def)

subsection \<open>Connect\<close>

text \<open>
  C9. When the multicast-option stage of \<^verbatim>\<open>Connect\<close> fails, \<^verbatim>\<open>Connect\<close> returns that
  error and the socket is as it was (connection flag and tag included). After that stage,
  a failed random bind, a destination that does not convert to a \<^verbatim>\<open>sockaddr\<close> and a
  failed \<^verbatim>\<open>connect\<close> call each make the result an error; every result other than \<open>OK\<close>
  leaves the socket not connected with the default tag, and the result \<open>OK\<close> leaves it
  connected, with the tag it had and the destination cached as the remote endpoint.
\<close>

theorem Connect_outcomes:
  "(let (rv0, w1) = SetMulticastOptions p s w in
      (rv0 \<noteq> OK \<longrightarrow> Connect p s a w = (rv0, s, w1))
    \<and> (rv0 = OK \<longrightarrow>
         (let (rv, s', w') = Connect p s a w;
              (rvb, wb) =
                (if bind_type s = RANDOM_BIND
                 then RandomBind p s
                        (AllZeros (if GetSockAddrFamily a = AF_INET
                                   then kIPv4AddressSize else kIPv6AddressSize)) w1
                 else (OK, w1));
              rc = sys_reply wb (length (sys_log wb)) (sys_connect (socket s) a)
          in (isl rvb \<longrightarrow> rv = rvb)
           \<and> (\<not> isl rvb \<and> \<not> ToSockAddr a \<longrightarrow> rv = Inl ERR_ADDRESS_INVALID)
           \<and> (\<not> isl rvb \<and> ToSockAddr a \<and> ret rc < 0
                \<longrightarrow> rv = Inl (MapSystemError p (errno rc)))
           \<and> (rv \<noteq> OK \<longrightarrow> \<not> is_connected s' \<and> tag s' = SocketTag_default)
           \<and> (rv = OK \<longrightarrow>
                is_connected s' \<and> tag s' = tag s \<and> remote_address s' = Some a))))"
  by (auto simp add: Connect_def InternalConnect_def Let_def split_beta sys_def)

lemma Connect_example_options_fail:
  "Connect posix_build ((example_open_socket DEFAULT_BIND)\<lparr>socket_options := 0\<rparr>)
     example_peer (world_of (kernel_failing is_ipv4_option EINVAL)) =
   (Inl ERR_INVALID_ARGUMENT, (example_open_socket DEFAULT_BIND)\<lparr>socket_options := 0\<rparr>,
    (world_of (kernel_failing is_ipv4_option EINVAL))
      \<lparr>sys_log := [sys_setsockopt 3 IPPROTO_IP IP_MULTICAST_LOOP (UCharVal 0)]\<rparr>)"
  by (simp add: Connect_def SetMulticastOptions_example_failing)

lemma Connect_example_connect_fails:
  "Connect posix_build (example_open_socket DEFAULT_BIND) example_peer
     (world_of (kernel_failing is_connect EINVAL)) =
   (Inl ERR_INVALID_ARGUMENT,
    (example_open_socket DEFAULT_BIND)\<lparr>is_connected := False, tag := SocketTag_default\<rparr>,
    (world_of (kernel_failing is_connect EINVAL))\<lparr>sys_log := [sys_connect 3 example_peer]\<rparr>)"
  by (simp add: Connect_def SetMulticastOptions_example InternalConnect_def sys_def
        example_simps)

lemma Connect_example_succeeds:
  "Connect posix_build (example_open_socket DEFAULT_BIND) example_peer
     (world_of (kernel_returning 0)) =
   (OK,
    (example_open_socket DEFAULT_BIND)
      \<lparr>remote_address := Some example_peer, is_connected := True\<rparr>,
    (world_of (kernel_returning 0))\<lparr>sys_log := [sys_connect 3 example_peer]\<rparr>)"
  by (simp add: Connect_def SetMulticastOptions_example InternalConnect_def sys_def
        example_simps)

lemma RandomBind_example_bind_fails:
  "RandomBind posix_build (example_open_socket RANDOM_BIND) (AllZeros 4)
     (world_of (kernel_failing is_bind EINVAL)) =
   (Inl ERR_INVALID_ARGUMENT,
    (world_of (kernel_failing is_bind EINVAL))
      \<lparr>rand_used := 1, sys_log := [sys_bind 3 \<lparr>address = AllZeros 4, port = 41024\<rparr>]\<rparr>)"
  by (simp add: RandomBind_def RandomBind_from.simps [of _ _ _ 0] kBindRetries_def DoBind_def
        ToSockAddr_def AllZeros_def kIPv4AddressSize_def RandInt_def sys_def example_simps
        split_beta kPortStart_def kPortEnd_def)

lemma Connect_example_bind_fails:
  "Connect posix_build (example_open_socket RANDOM_BIND) example_peer
     (world_of (kernel_failing is_bind EINVAL)) =
   (Inl ERR_INVALID_ARGUMENT,
    (example_open_socket RANDOM_BIND)\<lparr>is_connected := False, tag := SocketTag_default\<rparr>,
    (world_of (kernel_failing is_bind EINVAL))
      \<lparr>rand_used := 1, sys_log := [sys_bind 3 \<lparr>address = AllZeros 4, port = 41024\<rparr>]\<rparr>)"
  by (simp add: Connect_def SetMulticastOptions_example InternalConnect_def sys_def
        example_simps RandomBind_example_bind_fails kIPv4AddressSize_def)

theorem Connect_outcomes_witness:
  "fst (Connect posix_build ((example_open_socket DEFAULT_BIND)\<lparr>socket_options := 0\<rparr>)
          example_peer (world_of (kernel_failing is_ipv4_option EINVAL)))
     = Inl ERR_INVALID_ARGUMENT
 \<and> tag (fst (snd (Connect posix_build
          ((example_open_socket DEFAULT_BIND)\<lparr>socket_options := 0\<rparr>)
          example_peer (world_of (kernel_failing is_ipv4_option EINVAL))))) = (1000, 7)
 \<and> fst (Connect posix_build (example_open_socket DEFAULT_BIND) example_peer
          (world_of (kernel_failing is_connect EINVAL))) = Inl ERR_INVALID_ARGUMENT
 \<and> tag (fst (snd (Connect posix_build (example_open_socket DEFAULT_BIND) example_peer
          (world_of (kernel_failing is_connect EINVAL))))) = SocketTag_default
 \<and> fst (Connect posix_build (example_open_socket RANDOM_BIND) example_peer
          (world_of (kernel_failing is_bind EINVAL))) = Inl ERR_INVALID_ARGUMENT
 \<and> is_connected (fst (snd (Connect posix_build (example_open_socket RANDOM_BIND)
          example_peer (world_of (kernel_failing is_bind EINVAL))))) = False
 \<and> fst (Connect posix_build (example_open_socket DEFAULT_BIND) example_peer
          (world_of (kernel_returning 0))) = OK
 \<and> tag (fst (snd (Connect posix_build (example_open_socket DEFAULT_BIND) example_peer
          (world_of (kernel_returning 0))))) = (1000, 7)
 \<and> remote_address (fst (snd (Connect posix_build (example_open_socket DEFAULT_BIND)
          example_peer (world_of (kernel_returning 0))))) = Some example_peer"
proof -
  have options_fail:
    "Connect posix_build ((example_open_socket DEFAULT_BIND)\<lparr>socket_options := 0\<rparr>)
       example_peer (world_of (kernel_failing is_ipv4_option EINVAL)) =
     (Inl ERR_INVALID_ARGUMENT, (example_open_socket DEFAULT_BIND)\<lparr>socket_options := 0\<rparr>,
      (world_of (kernel_failing is_ipv4_option EINVAL))
        \<lparr>sys_log := [sys_setsockopt 3 IPPROTO_IP IP_MULTICAST_LOOP (UCharVal 0)]\<rparr>)"
    using Connect_outcomes
            [where p = posix_build and a = example_peer
               and s = "(example_open_socket DEFAULT_BIND)\<lparr>socket_options := 0\<rparr>"
               and w = "world_of (kernel_failing is_ipv4_option EINVAL)"]
    by (simp add: SetMulticastOptions_example_failing)
  have connect_fails:
    "tag (fst (snd (Connect posix_build (example_open_socket DEFAULT_BIND) example_peer
            (world_of (kernel_failing is_connect EINVAL))))) = SocketTag_default"
    using Connect_outcomes
            [where p = posix_build and a = example_peer
               and s = "example_open_socket DEFAULT_BIND"
               and w = "world_of (kernel_failing is_connect EINVAL)"]
    by (simp add: SetMulticastOptions_example split_beta Connect_example_connect_fails)
  have bind_fails:
    "is_connected (fst (snd (Connect posix_build (example_open_socket RANDOM_BIND)
            example_peer (world_of (kernel_failing is_bind EINVAL))))) = False"
    using Connect_outcomes
            [where p = posix_build and a = example_peer
               and s = "example_open_socket RANDOM_BIND"
               and w = "world_of (kernel_failing is_bind EINVAL)"]
    by (simp add: SetMulticastOptions_example split_beta Connect_example_bind_fails)
  have succeeds:
    "tag (fst (snd (Connect posix_build (example_open_socket DEFAULT_BIND) example_peer
            (world_of (kernel_returning 0))))) = (1000, 7)
   \<and> remote_address (fst (snd (Connect posix_build (example_open_socket DEFAULT_BIND)
            example_peer (world_of (kernel_returning 0))))) = Some example_peer"
    using Connect_outcomes
            [where p = posix_build and a = example_peer
               and s = "example_open_socket DEFAULT_BIND"
               and w = "world_of (kernel_returning 0)"]
    by (simp add: SetMulticastOptions_example split_beta Connect_example_succeeds
          example_open_socket_simps)
  show ?thesis
    using options_fail connect_fails bind_fails succeeds
    by (simp add: Connect_example_connect_fails Connect_example_bind_fails
          Connect_example_succeeds example_open_socket_simps)
qed

subsection \<open>Close and Open, step by step\<close>

lemma OnClose_world:
  "snd (OnClose m w) = w\<lparr>bytes_received := bytes_received (snd (OnClose m w))\<rparr>"
  unfolding OnClose_def by (rule Update_world)

lemma OnClose_frame:
  "sys_log (snd (OnClose m w)) = sys_log w"
  "udp_socket_count (snd (OnClose m w)) = udp_socket_count w"
  "callbacks_run (snd (OnClose m w)) = callbacks_run w"
  by (subst OnClose_world, simp)+

lemma close_descriptor_log:
  "close_descriptor p fd w = Inr w' \<Longrightarrow>
     w' = w\<lparr>sys_log := sys_log w @
             (if IS_APPLE p \<and> \<not> CRONET_BUILD p
              then [sys_getsockopt fd SOL_SOCKET SO_ERROR, guarded_close_np fd]
              else [sys_close fd])\<rparr>"
  by (auto simp add: close_descriptor_def sys_def Let_def split_beta split: if_splits)

lemma Close_open:
  assumes "\<not> dont_close s" and "socket s \<noteq> kInvalidSocket"
    and "socket_hash s = GetSocketFDHash (socket s)"
    and "close_descriptor p (socket s) (OwnedUDPSocketCount_Reset (owned_socket_count s) w) = Inr w1"
  shows "Close p s w =
     Inr (s\<lparr>owned_socket_count := False,
            read_buf := None, read_buf_len := 0, read_callback := None,
            recv_from_address := None, write_buf := None, write_buf_len := 0,
            write_callback := None, send_to_address := None,
            read_socket_watcher := False, write_socket_watcher := False,
            socket := kInvalidSocket, addr_family := AF_UNSPEC,
            is_connected := False, tag := SocketTag_default,
            received_activity_monitor := fst (OnClose (received_activity_monitor s) w1)\<rparr>,
          snd (OnClose (received_activity_monitor s) w1))"
  using assms by (simp add: Close_def Let_def split_beta)

lemma Close_open_crash:
  assumes "\<not> dont_close s" and "socket s \<noteq> kInvalidSocket"
    and "socket_hash s = GetSocketFDHash (socket s)"
    and "close_descriptor p (socket s) (OwnedUDPSocketCount_Reset (owned_socket_count s) w) = Inl f"
  shows "Close p s w = Inl f"
  using assms by (simp add: Close_def Let_def split_beta)

lemma guard_descriptor_frame:
  "guard_descriptor p fd w = Inr w' \<Longrightarrow>
     udp_socket_count w' = udp_socket_count w \<and> (\<exists>cs. sys_log w' = sys_log w @ cs)"
  by (auto simp add: guard_descriptor_def sys_def split_beta split: if_splits)

lemma Open_SetNonBlocking_fails:
  assumes "udp_socket_count w < udp_socket_limit w"
    and "sys (CreatePlatformSocket (ConvertAddressFamily af))
           (w\<lparr>udp_socket_count := udp_socket_count w + 1\<rparr>) = (r, wa)"
    and "ret r \<noteq> kInvalidSocket"
    and "guard_descriptor p (ret r) wa = Inr wb"
    and "sys (SetNonBlocking (ret r)) wb = (nb, wc)"
    and "ret nb \<noteq> 0"
  shows "Open p s af w =
     (case Close p (s\<lparr>addr_family := ConvertAddressFamily af, socket := ret r,
                      socket_hash := GetSocketFDHash (ret r)\<rparr>) wc of
        Inl f \<Rightarrow> Inl f
      | Inr (s4, wd) \<Rightarrow>
          Inr (Inl (MapSystemError p (errno nb)), s4, OwnedUDPSocketCount_Reset True wd))"
  using assms
  by (simp add: Open_def TryAcquireGlobalUDPSocketCount_def Let_def)

subsection \<open>Only an open socket holds a token\<close>

text \<open>
  The constructor, \<^verbatim>\<open>Close\<close>, and \<^verbatim>\<open>Open\<close> on a closed socket establish
  \<open>token_only_while_open\<close>; the other functions touch neither the descriptor nor the
  token. So a closed socket that is handed to \<^verbatim>\<open>Close\<close> holds no token.
\<close>

lemma UDPSocketPosix_new_token: "token_only_while_open (UDPSocketPosix_new bt)"
  by (simp add: token_only_while_open_def UDPSocketPosix_new_def)

lemma Close_releases_token:
  assumes "Close p s w = Inr (s', w')"
  shows "\<not> owned_socket_count s' \<and> socket s' = kInvalidSocket"
proof (cases "socket s = kInvalidSocket")
  case True
  with assms show ?thesis
    by (auto simp add: Close_def Let_def split: if_splits)
next
  case False
  with assms have h: "\<not> dont_close s" "socket_hash s = GetSocketFDHash (socket s)"
    by (auto simp add: Close_def Let_def split: if_splits)
  from assms False h obtain wd where
    "close_descriptor p (socket s) (OwnedUDPSocketCount_Reset (owned_socket_count s) w) = Inr wd"
    by (cases "close_descriptor p (socket s) (OwnedUDPSocketCount_Reset (owned_socket_count s) w)")
       (auto simp add: Close_def Let_def)
  from Close_open [OF h(1) False h(2) this] assms show ?thesis by auto
qed

lemma Open_token:
  assumes "socket s = kInvalidSocket" and "\<not> owned_socket_count s"
    and "Open p s af w = Inr (rv, s', w')"
  shows "token_only_while_open s'"
proof (cases "udp_socket_count w < udp_socket_limit w")
  case False
  with assms show ?thesis
    by (simp add: Open_def TryAcquireGlobalUDPSocketCount_def token_only_while_open_def)
next
  case gate: True
  define r where "r = fst (sys (CreatePlatformSocket (ConvertAddressFamily af))
                       (w\<lparr>udp_socket_count := udp_socket_count w + 1\<rparr>))"
  define wa where "wa = snd (sys (CreatePlatformSocket (ConvertAddressFamily af))
                       (w\<lparr>udp_socket_count := udp_socket_count w + 1\<rparr>))"
  show ?thesis
  proof (cases "ret r = kInvalidSocket")
    case True
    with assms gate show ?thesis
      by (auto simp add: Open_def TryAcquireGlobalUDPSocketCount_def token_only_while_open_def
            Let_def split_beta r_def)
  next
    case created: False
    show ?thesis
    proof (cases "guard_descriptor p (ret r) wa")
      case (Inl f)
      with assms gate created show ?thesis
        by (simp add: Open_def TryAcquireGlobalUDPSocketCount_def Let_def split_beta r_def wa_def)
    next
      case (Inr wb)
      define nb where "nb = fst (sys (SetNonBlocking (ret r)) wb)"
      define wc where "wc = snd (sys (SetNonBlocking (ret r)) wb)"
      show ?thesis
      proof (cases "ret nb = 0")
        case True
        with assms gate created Inr show ?thesis
          by (auto simp add: Open_def TryAcquireGlobalUDPSocketCount_def Let_def split_beta
                r_def wa_def nb_def token_only_while_open_def)
      next
        case False
        have eq: "Open p s af w =
           (case Close p (s\<lparr>addr_family := ConvertAddressFamily af, socket := ret r,
                            socket_hash := GetSocketFDHash (ret r)\<rparr>) wc of
              Inl f \<Rightarrow> Inl f
            | Inr (s4, w5) \<Rightarrow>
                Inr (Inl (MapSystemError p (errno nb)), s4, OwnedUDPSocketCount_Reset True w5))"
          using gate created Inr False
          by (intro Open_SetNonBlocking_fails [where r = r and wa = wa and wb = wb])
             (simp_all add: r_def wa_def nb_def wc_def)
        with assms(3) obtain w5 where
          "Close p (s\<lparr>addr_family := ConvertAddressFamily af, socket := ret r,
                      socket_hash := GetSocketFDHash (ret r)\<rparr>) wc = Inr (s', w5)"
          by (auto split: sum.splits)
        from Close_releases_token [OF this] show ?thesis
          by (simp add: token_only_while_open_def)
      qed
    qed
  qed
qed

lemma token_untouched:
  "socket (fst (snd (Connect p s a w))) = socket s"
  "owned_socket_count (fst (snd (Connect p s a w))) = owned_socket_count s"
  "socket (fst (snd (Bind p s a w))) = socket s"
  "owned_socket_count (fst (snd (Bind p s a w))) = owned_socket_count s"
  "socket (snd (SetMulticastTimeToLive s ttl)) = socket s"
  "owned_socket_count (snd (SetMulticastTimeToLive s ttl)) = owned_socket_count s"
  by (simp_all add: Connect_def InternalConnect_def Bind_def SetMulticastTimeToLive_def
        Let_def split_beta)

subsection \<open>Open\<close>

text \<open>
  C8. When the admission gate is empty (the process-wide count has reached its limit),
  \<^verbatim>\<open>Open\<close> returns \<open>ERR_INSUFFICIENT_RESOURCES\<close>, issues no call and leaves the socket
  and the world as they were. When the gate admits the socket, the descriptor \<open>ret r\<close> is
  created (and guarded), setting non-blocking mode fails with the reply \<open>nb\<close>, and the
  close of the descriptor goes through, \<^verbatim>\<open>Open\<close> returns the mapped error of \<open>nb\<close>;
  the socket is closed again, holds no token, the process-wide count is what it was, and
  the last calls issued are the ones that close the descriptor.
\<close>

theorem Open_admission_and_nonblocking_failure:
 "(udp_socket_limit w \<le> udp_socket_count w \<longrightarrow>
     Open p s af w = Inr (Inl ERR_INSUFFICIENT_RESOURCES, s, w))
  \<and> (udp_socket_count w < udp_socket_limit w \<and> \<not> dont_close s \<and> \<not> owned_socket_count s
      \<and> sys (CreatePlatformSocket (ConvertAddressFamily af))
           (w\<lparr>udp_socket_count := udp_socket_count w + 1\<rparr>) = (r, wa)
      \<and> ret r \<noteq> kInvalidSocket
      \<and> guard_descriptor p (ret r) wa = Inr wb
      \<and> sys (SetNonBlocking (ret r)) wb = (nb, wc) \<and> ret nb \<noteq> 0
      \<and> close_descriptor p (ret r) wc = Inr wd
    \<longrightarrow> (\<exists>s' w'. Open p s af w = Inr (Inl (MapSystemError p (errno nb)), s', w')
           \<and> socket s' = kInvalidSocket \<and> \<not> owned_socket_count s'
           \<and> udp_socket_count w' = udp_socket_count w
           \<and> (\<exists>cs. sys_log w' = sys_log w @ [CreatePlatformSocket (ConvertAddressFamily af)]
                       @ cs @ [SetNonBlocking (ret r)]
                       @ (if IS_APPLE p \<and> \<not> CRONET_BUILD p
                          then [sys_getsockopt (ret r) SOL_SOCKET SO_ERROR,
                                guarded_close_np (ret r)]
                          else [sys_close (ret r)]))))"
  (is "_ \<and> (?pre \<longrightarrow> ?post)")
proof (intro conjI impI)
  assume "udp_socket_limit w \<le> udp_socket_count w"
  then show "Open p s af w = Inr (Inl ERR_INSUFFICIENT_RESOURCES, s, w)"
    by (simp add: Open_def TryAcquireGlobalUDPSocketCount_def)
next
  assume pre: ?pre
  define s3 where "s3 = s\<lparr>addr_family := ConvertAddressFamily af, socket := ret r,
                      socket_hash := GetSocketFDHash (ret r)\<rparr>"
  have open_eq: "Open p s af w =
       (case Close p s3 wc of
          Inl f \<Rightarrow> Inl f
        | Inr (s4, wd) \<Rightarrow>
            Inr (Inl (MapSystemError p (errno nb)), s4, OwnedUDPSocketCount_Reset True wd))"
    unfolding s3_def using pre
    by (intro Open_SetNonBlocking_fails [where r = r and wa = wa and wb = wb]) simp_all
  have s3: "\<not> dont_close s3" "socket s3 \<noteq> kInvalidSocket"
      "socket_hash s3 = GetSocketFDHash (socket s3)" "\<not> owned_socket_count s3"
      "socket s3 = ret r"
    using pre by (simp_all add: s3_def)
  have c: "close_descriptor p (socket s3)
             (OwnedUDPSocketCount_Reset (owned_socket_count s3) wc) = Inr wd"
    using s3 pre by (simp add: OwnedUDPSocketCount_Reset_def)
  note cl = Close_open [OF s3(1) s3(2) s3(3) c]
  have wa: "wa = w\<lparr>udp_socket_count := udp_socket_count w + 1,
                   sys_log := sys_log w @ [CreatePlatformSocket (ConvertAddressFamily af)]\<rparr>"
    using pre by (auto simp add: sys_def)
  obtain cs where wb: "udp_socket_count wb = udp_socket_count wa" "sys_log wb = sys_log wa @ cs"
    using guard_descriptor_frame [of p "ret r" wa wb] pre by auto
  have wc: "wc = wb\<lparr>sys_log := sys_log wb @ [SetNonBlocking (ret r)]\<rparr>"
    using pre by (auto simp add: sys_def)
  have wd: "sys_log wd = sys_log wc @
             (if IS_APPLE p \<and> \<not> CRONET_BUILD p
              then [sys_getsockopt (ret r) SOL_SOCKET SO_ERROR, guarded_close_np (ret r)]
              else [sys_close (ret r)])"
         "udp_socket_count wd = udp_socket_count wc"
    using close_descriptor_log [of p "ret r" wc wd] pre by simp_all
  show ?post
    unfolding open_eq cl
    by (simp add: OwnedUDPSocketCount_Reset_def OnClose_frame wd wc wb wa)
qed

theorem Open_admission_and_nonblocking_failure_witness:
  "Open posix_build (UDPSocketPosix_new DEFAULT_BIND) ADDRESS_FAMILY_IPV4
      ((world_of nonblocking_fails_kernel)\<lparr>udp_socket_count := 6000\<rparr>)
     = Inr (Inl ERR_INSUFFICIENT_RESOURCES, UDPSocketPosix_new DEFAULT_BIND,
            (world_of nonblocking_fails_kernel)\<lparr>udp_socket_count := 6000\<rparr>)
 \<and> (\<exists>s' w'. Open posix_build (UDPSocketPosix_new DEFAULT_BIND) ADDRESS_FAMILY_IPV4
                 (world_of nonblocking_fails_kernel)
               = Inr (Inl ERR_INVALID_ARGUMENT, s', w')
            \<and> socket s' = kInvalidSocket \<and> \<not> owned_socket_count s'
            \<and> udp_socket_count w' = 0
            \<and> (\<exists>cs. sys_log w' = [CreatePlatformSocket AF_INET] @ cs @ [SetNonBlocking 5]
                                   @ [sys_close 5]))"
proof -
  let ?s = "UDPSocketPosix_new DEFAULT_BIND"
  let ?w = "world_of nonblocking_fails_kernel"
  let ?wa = "?w\<lparr>udp_socket_count := 1, sys_log := [CreatePlatformSocket AF_INET]\<rparr>"
  let ?wc = "?w\<lparr>udp_socket_count := 1,
                 sys_log := [CreatePlatformSocket AF_INET, SetNonBlocking 5]\<rparr>"
  let ?wd = "?w\<lparr>udp_socket_count := 1,
                 sys_log := [CreatePlatformSocket AF_INET, SetNonBlocking 5, sys_close 5]\<rparr>"
  have full: "Open posix_build ?s ADDRESS_FAMILY_IPV4 (?w\<lparr>udp_socket_count := 6000\<rparr>)
     = Inr (Inl ERR_INSUFFICIENT_RESOURCES, ?s, ?w\<lparr>udp_socket_count := 6000\<rparr>)"
    using Open_admission_and_nonblocking_failure
            [where p = posix_build and s = ?s and af = ADDRESS_FAMILY_IPV4
               and w = "?w\<lparr>udp_socket_count := 6000\<rparr>"]
    by (simp add: world_of_def)
  have pre: "udp_socket_count ?w < udp_socket_limit ?w \<and> \<not> dont_close ?s
      \<and> \<not> owned_socket_count ?s
      \<and> sys (CreatePlatformSocket (ConvertAddressFamily ADDRESS_FAMILY_IPV4))
           (?w\<lparr>udp_socket_count := udp_socket_count ?w + 1\<rparr>) = (returns 5, ?wa)
      \<and> ret (returns 5) \<noteq> kInvalidSocket
      \<and> guard_descriptor posix_build (ret (returns 5)) ?wa = Inr ?wa
      \<and> sys (SetNonBlocking (ret (returns 5))) ?wa = (fails EINVAL, ?wc)
      \<and> ret (fails EINVAL) \<noteq> 0
      \<and> close_descriptor posix_build (ret (returns 5)) ?wc = Inr ?wd"
    by (simp add: sys_def guard_descriptor_def close_descriptor_def world_of_def
          UDPSocketPosix_new_def posix_build_def reply_simps kInvalidSocket_def)
  show ?thesis
    using full
          Open_admission_and_nonblocking_failure
            [where p = posix_build and s = ?s and af = ADDRESS_FAMILY_IPV4 and w = ?w
               and r = "returns 5" and wa = ?wa and wb = ?wa and nb = "fails EINVAL"
               and wc = ?wc and wd = ?wd, THEN conjunct2, rule_format, OF pre]
    by (simp add: posix_build_simps reply_simps world_of_simps)
qed

subsection \<open>Close\<close>

lemma OnClose_monitor:
  "bytes (fst (OnClose m w)) = 0"
  "\<not> is_running (timer (fst (OnClose m w)))"
  "bytes_received (snd (OnClose m w)) = bytes_received w + unat (bytes m)"
  by (simp_all add: OnClose_def Update_def Timer_Stop_def IncrementBytesReceived_def)

text \<open>
  \<^verbatim>\<open>Open\<close> takes the fingerprint of the descriptor it creates: a socket that was opened
  carries the fingerprint of its own descriptor.
\<close>

lemma Open_fingerprint:
  assumes "Open p s af w = Inr (OK, s', w')"
  shows "socket_hash s' = GetSocketFDHash (socket s') \<and> socket s' \<noteq> kInvalidSocket
       \<and> owned_socket_count s'"
proof -
  from assms have gate: "udp_socket_count w < udp_socket_limit w"
    by (auto simp add: Open_def TryAcquireGlobalUDPSocketCount_def split: if_splits)
  define r where "r = fst (sys (CreatePlatformSocket (ConvertAddressFamily af))
                       (w\<lparr>udp_socket_count := udp_socket_count w + 1\<rparr>))"
  define wa where "wa = snd (sys (CreatePlatformSocket (ConvertAddressFamily af))
                       (w\<lparr>udp_socket_count := udp_socket_count w + 1\<rparr>))"
  from assms gate have created: "ret r \<noteq> kInvalidSocket"
    by (auto simp add: Open_def TryAcquireGlobalUDPSocketCount_def Let_def split_beta r_def
          split: if_splits)
  show ?thesis
  proof (cases "guard_descriptor p (ret r) wa")
    case (Inl f)
    with assms gate created show ?thesis
      by (simp add: Open_def TryAcquireGlobalUDPSocketCount_def Let_def split_beta r_def wa_def)
  next
    case (Inr wb)
    define nb where "nb = fst (sys (SetNonBlocking (ret r)) wb)"
    show ?thesis
    proof (cases "ret nb = 0")
      case True
      with assms gate created Inr show ?thesis
        by (auto simp add: Open_def TryAcquireGlobalUDPSocketCount_def Let_def split_beta
              r_def wa_def nb_def)
    next
      case False
      with assms gate created Inr show ?thesis
        by (auto simp add: Open_def TryAcquireGlobalUDPSocketCount_def Let_def split_beta
              r_def wa_def nb_def split: sum.splits)
    qed
  qed
qed

lemma GetSocketFDHash_inject: "GetSocketFDHash a = GetSocketFDHash b \<longleftrightarrow> a = b"
proof
  assume "GetSocketFDHash a = GetSocketFDHash b"
  then have "(a XOR 1595649551) XOR 1595649551 = (b XOR 1595649551) XOR 1595649551"
    by (simp add: GetSocketFDHash_def)
  then show "a = b" by (simp add: xor.assoc)
qed simp

lemma Close_descriptor_changed:
  assumes "\<not> dont_close s" and "socket s \<noteq> kInvalidSocket"
    and "socket_hash s = GetSocketFDHash fd" and "socket s \<noteq> fd"
  shows "Close p s w = Inl CheckFailed"
  using assms by (simp add: Close_def Let_def GetSocketFDHash_inject)

lemma no_callback_no_readiness:
  "read_callback s = None \<Longrightarrow> OnFileCanReadWithoutBlocking p s v = Inr (s, v)"
  "write_callback s = None \<Longrightarrow> OnFileCanWriteWithoutBlocking p s v = Inr (s, v)"
  by (simp_all add: OnFileCanReadWithoutBlocking_def OnFileCanWriteWithoutBlocking_def)

text \<open>
  C7. With the do-not-close flag clear: \<^verbatim>\<open>Close\<close> on a closed socket (which holds no
  token) changes nothing. \<^verbatim>\<open>Close\<close> on an open socket whose fingerprint does not match
  the descriptor fails its \<^verbatim>\<open>CHECK\<close>. \<^verbatim>\<open>Close\<close> on an open socket whose fingerprint
  matches, when the close of the descriptor goes through: the pending read and write
  state is cleared and no callback is run, neither by \<^verbatim>\<open>Close\<close> nor by a watcher that
  fires afterwards; neither watcher is registered any longer; the calls issued are those
  that close the descriptor; descriptor, address family, connection flag and tag are
  reset; the token is released; the monitor's timer is stopped and its bytes are reported.
  The fingerprint is verified against the live descriptor: when the fingerprint is that of
  a descriptor \<open>fd\<close> and the socket's descriptor is another one, \<^verbatim>\<open>Close\<close> fails its
  \<^verbatim>\<open>CHECK\<close>, whatever the kernel would answer. With the do-not-close flag set
  \<^verbatim>\<open>Close\<close> fails its first \<^verbatim>\<open>CHECK\<close>.
\<close>

theorem Close_effects:
  "(\<not> dont_close s \<and> socket s = kInvalidSocket \<and> \<not> owned_socket_count s
      \<longrightarrow> Close p s w = Inr (s, w))
 \<and> (\<not> dont_close s \<and> socket s \<noteq> kInvalidSocket
      \<and> socket_hash s \<noteq> GetSocketFDHash (socket s)
      \<longrightarrow> Close p s w = Inl CheckFailed)
 \<and> (\<not> dont_close s \<and> socket s \<noteq> kInvalidSocket
      \<and> socket_hash s = GetSocketFDHash (socket s)
      \<and> close_descriptor p (socket s)
           (OwnedUDPSocketCount_Reset (owned_socket_count s) w) = Inr wd
      \<longrightarrow> (\<exists>s' w'. Close p s w = Inr (s', w')
             \<and> read_buf s' = None \<and> read_buf_len s' = 0 \<and> recv_from_address s' = None
             \<and> read_callback s' = None
             \<and> write_buf s' = None \<and> write_buf_len s' = 0 \<and> send_to_address s' = None
             \<and> write_callback s' = None
             \<and> callbacks_run w' = callbacks_run w
             \<and> \<not> read_socket_watcher s' \<and> \<not> write_socket_watcher s'
             \<and> sys_log w' = sys_log w @
                  (if IS_APPLE p \<and> \<not> CRONET_BUILD p
                   then [sys_getsockopt (socket s) SOL_SOCKET SO_ERROR,
                         guarded_close_np (socket s)]
                   else [sys_close (socket s)])
             \<and> socket s' = kInvalidSocket \<and> addr_family s' = AF_UNSPEC
             \<and> \<not> is_connected s' \<and> tag s' = SocketTag_default
             \<and> \<not> owned_socket_count s'
             \<and> udp_socket_count w' =
                  udp_socket_count w - (if owned_socket_count s then 1 else 0)
             \<and> bytes (received_activity_monitor s') = 0
             \<and> \<not> is_running (timer (received_activity_monitor s'))
             \<and> bytes_received w' =
                  bytes_received w + unat (bytes (received_activity_monitor s))
             \<and> (\<forall>v. OnFileCanReadWithoutBlocking p s' v = Inr (s', v))
             \<and> (\<forall>v. OnFileCanWriteWithoutBlocking p s' v = Inr (s', v))))
 \<and> (\<not> dont_close s \<and> socket s \<noteq> kInvalidSocket
      \<and> socket_hash s = GetSocketFDHash fd \<and> socket s \<noteq> fd
      \<longrightarrow> Close p s w = Inl CheckFailed)
 \<and> (dont_close s \<longrightarrow> Close p s w = Inl CheckFailed)"
  (is "?closed \<and> ?corrupt \<and> (?pre \<longrightarrow> ?post) \<and> ?changed \<and> ?flag")
proof (intro conjI impI)
  assume "\<not> dont_close s \<and> socket s = kInvalidSocket \<and> \<not> owned_socket_count s"
  then show "Close p s w = Inr (s, w)"
    by (simp add: Close_def OwnedUDPSocketCount_Reset_def)
next
  assume "\<not> dont_close s \<and> socket s \<noteq> kInvalidSocket
      \<and> socket_hash s \<noteq> GetSocketFDHash (socket s)"
  then show "Close p s w = Inl CheckFailed"
    by (simp add: Close_def Let_def)
next
  assume pre: ?pre
  then have h: "\<not> dont_close s" "socket s \<noteq> kInvalidSocket"
    "socket_hash s = GetSocketFDHash (socket s)"
    "close_descriptor p (socket s) (OwnedUDPSocketCount_Reset (owned_socket_count s) w) = Inr wd"
    by simp_all
  note cl = Close_open [OF h]
  have wd: "sys_log wd = sys_log w @
             (if IS_APPLE p \<and> \<not> CRONET_BUILD p
              then [sys_getsockopt (socket s) SOL_SOCKET SO_ERROR, guarded_close_np (socket s)]
              else [sys_close (socket s)])"
    "udp_socket_count wd = udp_socket_count w - (if owned_socket_count s then 1 else 0)"
    "callbacks_run wd = callbacks_run w"
    "bytes_received wd = bytes_received w"
    using close_descriptor_log [OF h(4)] by (simp_all add: OwnedUDPSocketCount_Reset_def)
  show ?post
    unfolding cl
    by (simp add: OnClose_frame OnClose_monitor wd no_callback_no_readiness)
next
  assume "\<not> dont_close s \<and> socket s \<noteq> kInvalidSocket
      \<and> socket_hash s = GetSocketFDHash fd \<and> socket s \<noteq> fd"
  then show "Close p s w = Inl CheckFailed"
    by (intro Close_descriptor_changed [where fd = fd]) simp_all
next
  assume "dont_close s"
  then show "Close p s w = Inl CheckFailed"
    by (simp add: Close_def)
qed

lemma LogRead_socket:
  "fst (LogRead s r w) = s\<lparr>received_activity_monitor := received_activity_monitor (fst (LogRead s r w))\<rparr>"
  by (cases r) (simp_all add: LogRead_def split_beta)

lemma InternalRecvFrom_socket:
  "fst (snd (InternalRecvFrom p s buf buf_len addr w)) =
     s\<lparr>received_activity_monitor :=
          received_activity_monitor (fst (snd (InternalRecvFrom p s buf buf_len addr w)))\<rparr>"
  by (simp add: InternalRecvFrom_def InternalRecvFromConnectedSocket_def
        InternalRecvFromNonConnectedSocket_def Let_def split_beta LogRead_socket [symmetric])

lemma InternalRecvFrom_read_callback:
  "read_callback (fst (snd (InternalRecvFrom p s buf buf_len addr w))) = read_callback s"
  by (subst InternalRecvFrom_socket) simp

lemma InternalRecvFrom_callbacks_run:
  "callbacks_run (snd (snd (InternalRecvFrom p s buf buf_len addr w))) = callbacks_run w"
proof -
  have "\<And>s r v. callbacks_run (snd (LogRead s r v)) = callbacks_run v"
    by (subst LogRead_world) simp
  then show ?thesis
    by (simp add: InternalRecvFrom_def InternalRecvFromConnectedSocket_def
          InternalRecvFromNonConnectedSocket_def Let_def split_beta sys_def
          split: option.splits)
qed

text \<open>
  A callback is stored by an operation that would block and is run, once, by the watcher
  when the retried operation completes.
\<close>

lemma RecvFrom_stores_callback:
  assumes "read_callback s = None"
    and "InternalRecvFrom p s buf buf_len addr w = (Inl ERR_IO_PENDING, sa, wa)"
    and "ret (sys_reply wa (length (sys_log wa)) (WatchFileDescriptor (socket sa) WATCH_READ)) = 0"
  shows "\<exists>s' w'. RecvFrom p s buf buf_len addr c w = Inr (Inl ERR_IO_PENDING, s', w')
           \<and> read_callback s' = Some c \<and> read_buf s' = Some buf
           \<and> read_buf_len s' = buf_len \<and> recv_from_address s' = addr
           \<and> read_socket_watcher s'
           \<and> callbacks_run w' = callbacks_run w"
  using assms InternalRecvFrom_callbacks_run [of p s buf buf_len addr w]
  by (simp add: RecvFrom_def Let_def sys_def)

lemma readiness_runs_callback:
  assumes "read_callback s = Some c" and "read_buf s = Some buf"
    and "fst (InternalRecvFrom p s buf (read_buf_len s) (recv_from_address s) w) = result"
    and "result \<noteq> Inl ERR_IO_PENDING"
  shows "\<exists>s' w'. OnFileCanReadWithoutBlocking p s w = Inr (s', w')
           \<and> read_callback s' = None
           \<and> callbacks_run w' = callbacks_run w @ [(c, result)]"
  using assms InternalRecvFrom_read_callback [of p s buf "read_buf_len s" "recv_from_address s" w]
    InternalRecvFrom_callbacks_run [of p s buf "read_buf_len s" "recv_from_address s" w]
  by (simp add: OnFileCanReadWithoutBlocking_def DidCompleteRead_def DoReadCallback_def
        Let_def split_beta)

lemma readiness_example_runs_callback:
  "\<exists>s' w'. OnFileCanReadWithoutBlocking posix_build example_pending_socket
               (world_of (kernel_returning 100)) = Inr (s', w')
     \<and> callbacks_run w' = [(9, Inr 100)] \<and> read_callback s' = None"
  by (simp add: OnFileCanReadWithoutBlocking_def DidCompleteRead_def DoReadCallback_def
        InternalRecvFrom_def InternalRecvFromConnectedSocket_def LogRead_def Increment_def
        Update_def Let_def split_beta sys_def
        example_pending_socket_def example_socket_def UDPSocketPosix_new_def
        world_of_def kernel_returning_def returns_def
        kActivityMonitorMinimumSamplesForThroughputEstimate_def
        kActivityMonitorBytesThreshold_def)

theorem Close_effects_witness:
  "Close posix_build (UDPSocketPosix_new DEFAULT_BIND) (world_of (kernel_returning 0))
     = Inr (UDPSocketPosix_new DEFAULT_BIND, world_of (kernel_returning 0))
 \<and> Close posix_build (example_pending_socket\<lparr>socket_hash := 0\<rparr>)
      (world_of (kernel_returning 0)) = Inl CheckFailed
 \<and> (\<exists>s' w'. Close posix_build example_pending_socket
                 ((world_of (kernel_returning 0))\<lparr>udp_socket_count := 1\<rparr>) = Inr (s', w')
        \<and> read_buf s' = None \<and> read_callback s' = None \<and> callbacks_run w' = []
        \<and> \<not> read_socket_watcher s' \<and> sys_log w' = [sys_close 3]
        \<and> socket s' = kInvalidSocket \<and> \<not> is_connected s'
        \<and> udp_socket_count w' = 0 \<and> bytes_received w' = 100
        \<and> OnFileCanReadWithoutBlocking posix_build s' (world_of (kernel_returning 100))
            = Inr (s', world_of (kernel_returning 100)))
 \<and> Close posix_build (example_pending_socket\<lparr>socket := 4\<rparr>)
      (world_of (kernel_returning 0)) = Inl CheckFailed
 \<and> Close posix_build (example_pending_socket\<lparr>dont_close := True\<rparr>)
      (world_of (kernel_returning 0)) = Inl CheckFailed
 \<and> (\<exists>s' w'. OnFileCanReadWithoutBlocking posix_build example_pending_socket
                 (world_of (kernel_returning 100)) = Inr (s', w')
        \<and> callbacks_run w' = [(9, Inr 100)])"
proof -
  let ?w = "(world_of (kernel_returning 0))\<lparr>udp_socket_count := 1\<rparr>"
  have closed: "Close posix_build (UDPSocketPosix_new DEFAULT_BIND) (world_of (kernel_returning 0))
     = Inr (UDPSocketPosix_new DEFAULT_BIND, world_of (kernel_returning 0))"
    using Close_effects [where p = posix_build and s = "UDPSocketPosix_new DEFAULT_BIND"
                           and w = "world_of (kernel_returning 0)"]
    by (simp add: UDPSocketPosix_new_def)
  have corrupt: "Close posix_build (example_pending_socket\<lparr>socket_hash := 0\<rparr>)
      (world_of (kernel_returning 0)) = Inl CheckFailed"
    using Close_effects [where p = posix_build and s = "example_pending_socket\<lparr>socket_hash := 0\<rparr>"
                           and w = "world_of (kernel_returning 0)"]
    by (simp add: example_pending_socket_def example_socket_def UDPSocketPosix_new_def
          kInvalidSocket_def GetSocketFDHash_def)
  have changed_pre: "\<not> dont_close (example_pending_socket\<lparr>socket := 4\<rparr>)
      \<and> socket (example_pending_socket\<lparr>socket := 4\<rparr>) \<noteq> kInvalidSocket
      \<and> socket_hash (example_pending_socket\<lparr>socket := 4\<rparr>) = GetSocketFDHash 3
      \<and> socket (example_pending_socket\<lparr>socket := 4\<rparr>) \<noteq> 3"
    by (simp add: example_pending_socket_def example_socket_def UDPSocketPosix_new_def
          kInvalidSocket_def)
  have changed: "Close posix_build (example_pending_socket\<lparr>socket := 4\<rparr>)
      (world_of (kernel_returning 0)) = Inl CheckFailed"
    using Close_effects [where p = posix_build and s = "example_pending_socket\<lparr>socket := 4\<rparr>"
                           and w = "world_of (kernel_returning 0)" and fd = 3]
          changed_pre
    by blast
  have flag: "Close posix_build (example_pending_socket\<lparr>dont_close := True\<rparr>)
      (world_of (kernel_returning 0)) = Inl CheckFailed"
    using Close_effects [where p = posix_build
                           and s = "example_pending_socket\<lparr>dont_close := True\<rparr>"
                           and w = "world_of (kernel_returning 0)"]
    by simp
  have pre: "\<not> dont_close example_pending_socket \<and> socket example_pending_socket \<noteq> kInvalidSocket
      \<and> socket_hash example_pending_socket = GetSocketFDHash (socket example_pending_socket)
      \<and> close_descriptor posix_build (socket example_pending_socket)
           (OwnedUDPSocketCount_Reset (owned_socket_count example_pending_socket) ?w)
         = Inr ((world_of (kernel_returning 0))\<lparr>udp_socket_count := 0, sys_log := [sys_close 3]\<rparr>)"
    by (simp add: example_pending_socket_def example_socket_def UDPSocketPosix_new_def
          kInvalidSocket_def close_descriptor_def OwnedUDPSocketCount_Reset_def sys_def
          posix_build_def world_of_def kernel_returning_def returns_def)
  have fields: "socket example_pending_socket = 3"
    "owned_socket_count example_pending_socket"
    "unat (bytes (received_activity_monitor example_pending_socket)) = 100"
    by (simp_all add: example_pending_socket_def example_socket_def UDPSocketPosix_new_def)
  obtain s' w' where
    "Close posix_build example_pending_socket ?w = Inr (s', w')
       \<and> read_buf s' = None \<and> read_callback s' = None \<and> callbacks_run w' = []
       \<and> \<not> read_socket_watcher s' \<and> sys_log w' = [sys_close 3]
       \<and> socket s' = kInvalidSocket \<and> \<not> is_connected s'
       \<and> udp_socket_count w' = 0 \<and> bytes_received w' = 100
       \<and> OnFileCanReadWithoutBlocking posix_build s' (world_of (kernel_returning 100))
            = Inr (s', world_of (kernel_returning 100))"
    using Close_effects [where p = posix_build and s = example_pending_socket and w = ?w,
                         THEN conjunct2, THEN conjunct2, THEN conjunct1, rule_format, OF pre]
    by (auto simp add: fields posix_build_simps world_of_simps)
  then have closes: "\<exists>s' w'. Close posix_build example_pending_socket ?w = Inr (s', w')
       \<and> read_buf s' = None \<and> read_callback s' = None \<and> callbacks_run w' = []
       \<and> \<not> read_socket_watcher s' \<and> sys_log w' = [sys_close 3]
       \<and> socket s' = kInvalidSocket \<and> \<not> is_connected s'
       \<and> udp_socket_count w' = 0 \<and> bytes_received w' = 100
       \<and> OnFileCanReadWithoutBlocking posix_build s' (world_of (kernel_returning 100))
            = Inr (s', world_of (kernel_returning 100))"
    by blast
  from readiness_example_runs_callback
  have runs: "\<exists>s' w'. OnFileCanReadWithoutBlocking posix_build example_pending_socket
                 (world_of (kernel_returning 100)) = Inr (s', w')
        \<and> callbacks_run w' = [(9, Inr 100)]"
    by blast
  from closed corrupt closes changed flag runs show ?thesis by blast
qed

subsection \<open>The activity monitor\<close>

text \<open>
  C3 (amended). \<^verbatim>\<open>Increment\<close> of zero bytes changes nothing. \<^verbatim>\<open>Increment\<close> of \<open>n\<close>
  bytes, \<open>n\<close> not zero, adds \<open>n\<close> to the accumulator and one to the sample counter (both
  32 bits wide); it flushes at once (the accumulated bytes go to the process-wide counter
  and the accumulator is zero again) if and only if the sample counter, which a flush
  does not reset, is now below 2 or the accumulator now exceeds 65535. After such a flush
  a timer that was running is restarted; a timer that was not running is started with a
  period of 100 ms, flush or not. When the timer fires the sample counter is reset; the
  timer is stopped if no bytes are accumulated, otherwise the bytes are flushed and the
  timer is left as it is.
\<close>

theorem Increment_and_OnTimerFired_rules:
  "Increment 0 m w = (m, w)
 \<and> (n \<noteq> 0 \<longrightarrow>
      (let b = bytes m + n;
           i = increments m + 1;
           flush = (uint i < 2 \<or> uint b > 65535);
           (m', w') = Increment n m w
       in bytes m' = (if flush then 0 else b)
        \<and> increments m' = i
        \<and> w' = w\<lparr>bytes_received := bytes_received w + (if flush then unat b else 0)\<rparr>
        \<and> timer m' =
            (if is_running (timer m)
             then (if flush then Timer_Reset (now w) (timer m) else timer m)
             else Timer_Start (now w) 100 (timer m))))
 \<and> (let (m', w') = OnTimerFired m w
     in increments m' = 0 \<and> bytes m' = 0
      \<and> w' = w\<lparr>bytes_received := bytes_received w + unat (bytes m)\<rparr>
      \<and> timer m' = (if bytes m = 0 then Timer_Stop (timer m) else timer m))"
  by (simp add: Increment_def OnTimerFired_def Update_def IncrementBytesReceived_def
        Let_def split_beta Timer_Start_def Timer_Reset_def
        kActivityMonitorMinimumSamplesForThroughputEstimate_def
        kActivityMonitorBytesThreshold_def kActivityMonitorMsThreshold_def)

lemma monitor_example_first:
  "Increment 10 monitor_init (world_of k) =
     (\<lparr>bytes = 0, increments = 1,
       timer = \<lparr>is_running = True, delay = 100, desired_run_time = 100\<rparr>\<rparr>,
      (world_of k)\<lparr>bytes_received := 10\<rparr>)"
  by (simp add: Increment_def Update_def IncrementBytesReceived_def Let_def monitor_init_def
        Timer_Start_def world_of_simps
        kActivityMonitorMinimumSamplesForThroughputEstimate_def
        kActivityMonitorBytesThreshold_def kActivityMonitorMsThreshold_def)

lemma monitor_example_second:
  "Increment 10
     \<lparr>bytes = 0, increments = 1,
      timer = \<lparr>is_running = True, delay = 100, desired_run_time = 100\<rparr>\<rparr>
     ((world_of k)\<lparr>bytes_received := 10\<rparr>) =
     (\<lparr>bytes = 10, increments = 2,
       timer = \<lparr>is_running = True, delay = 100, desired_run_time = 100\<rparr>\<rparr>,
      (world_of k)\<lparr>bytes_received := 10\<rparr>)"
  by (simp add: Increment_def Update_def IncrementBytesReceived_def Let_def
        kActivityMonitorMinimumSamplesForThroughputEstimate_def
        kActivityMonitorBytesThreshold_def kActivityMonitorMsThreshold_def)

theorem Increment_and_OnTimerFired_rules_witness:
  "Increment 10 monitor_init (world_of (kernel_returning 0)) =
     (\<lparr>bytes = 0, increments = 1,
       timer = \<lparr>is_running = True, delay = 100, desired_run_time = 100\<rparr>\<rparr>,
      (world_of (kernel_returning 0))\<lparr>bytes_received := 10\<rparr>)"
  using Increment_and_OnTimerFired_rules
          [where n = 10 and m = monitor_init and w = "world_of (kernel_returning 0)"]
  by (simp add: monitor_example_first)

text \<open>
  As the specification states it, the rule fails on the second of two samples of ten bytes. The first is
  flushed. The second is the only sample accumulated since that flush, fewer than 2, and
  it is not flushed: its bytes stay in the accumulator and nothing is reported.
\<close>

theorem Increment_second_sample_counterexample:
  "step_flushes (EvIncrement 10) (monitor_init, world_of (kernel_returning 0))
 \<and> samples_since_last_flush [EvIncrement 10, EvIncrement 10]
      (monitor_init, world_of (kernel_returning 0)) 0 = 1
 \<and> \<not> step_flushes (EvIncrement 10)
        (monitor_run [EvIncrement 10] (monitor_init, world_of (kernel_returning 0)))
 \<and> bytes (fst (monitor_run [EvIncrement 10, EvIncrement 10]
                  (monitor_init, world_of (kernel_returning 0)))) = 10"
  by (simp add: step_flushes_def is_sample_def monitor_run_def monitor_step_def
        monitor_example_first monitor_example_second world_of_simps)

lemma Increment_timer_covers_bytes:
  "timer_covers_bytes m \<Longrightarrow> timer_covers_bytes (fst (Increment n m w))"
  by (simp add: timer_covers_bytes_def Increment_def Update_def Let_def split_beta
        Timer_Start_def Timer_Reset_def)

lemma OnTimerFired_no_bytes: "bytes (fst (OnTimerFired m w)) = 0"
  by (simp add: OnTimerFired_def Update_def Let_def)

lemma OnClose_no_bytes: "bytes (fst (OnClose m w)) = 0"
  by (simp add: OnClose_def Update_def)

lemma monitor_step_timer_covers_bytes:
  assumes "timer_covers_bytes (fst mw)"
  shows "timer_covers_bytes (fst (monitor_step ev mw))"
proof (cases ev)
  case (EvIncrement n)
  with assms show ?thesis
    by (simp add: monitor_step_def split_beta Increment_timer_covers_bytes)
next
  case (EvAdvance d)
  with assms show ?thesis by (simp add: monitor_step_def split_beta)
next
  case EvTimerFired
  with assms show ?thesis
    by (simp add: monitor_step_def split_beta timer_covers_bytes_def OnTimerFired_no_bytes)
next
  case EvOnClose
  then show ?thesis
    by (simp add: monitor_step_def split_beta timer_covers_bytes_def OnClose_no_bytes)
qed

lemma monitor_run_timer_covers_bytes:
  "timer_covers_bytes (fst mw) \<Longrightarrow> timer_covers_bytes (fst (monitor_run evs mw))"
  unfolding monitor_run_def
  by (induction evs arbitrary: mw) (simp_all add: monitor_step_timer_covers_bytes)

text \<open>
  C4 (amended). At every quiescent point of a monitor (after any sequence of
  \<^verbatim>\<open>Increment\<close>, passing of time, timer fire and \<^verbatim>\<open>OnClose\<close>, from its construction), if
  the count of unreported bytes is not zero then the coalescing timer is running.
\<close>

theorem monitor_bytes_imply_timer:
  "bytes (fst (monitor_run evs (monitor_init, w))) \<noteq> 0
     \<Longrightarrow> is_running (timer (fst (monitor_run evs (monitor_init, w))))"
  using monitor_run_timer_covers_bytes [of "(monitor_init, w)" evs]
  by (simp add: timer_covers_bytes_def monitor_init_def)

lemma monitor_example_run:
  "monitor_run [EvIncrement 10, EvIncrement 10] (monitor_init, world_of k) =
     (\<lparr>bytes = 10, increments = 2,
       timer = \<lparr>is_running = True, delay = 100, desired_run_time = 100\<rparr>\<rparr>,
      (world_of k)\<lparr>bytes_received := 10\<rparr>)"
  by (simp add: monitor_run_def monitor_step_def monitor_example_first monitor_example_second)

theorem monitor_bytes_imply_timer_witness:
  "bytes (fst (monitor_run [EvIncrement 10, EvIncrement 10]
                 (monitor_init, world_of (kernel_returning 0)))) = 10
 \<and> is_running (timer (fst (monitor_run [EvIncrement 10, EvIncrement 10]
                 (monitor_init, world_of (kernel_returning 0)))))"
  using monitor_bytes_imply_timer
          [where evs = "[EvIncrement 10, EvIncrement 10]" and w = "world_of (kernel_returning 0)"]
  by (simp add: monitor_example_run)

text \<open>
  As the specification states it, the invariant fails after the first sample: it is flushed at once, so no bytes are
  unreported, and the timer has just been started.
\<close>

theorem monitor_timer_without_bytes_counterexample:
  "is_running (timer (fst (monitor_run [EvIncrement 10]
                 (monitor_init, world_of (kernel_returning 0)))))
 \<and> bytes (fst (monitor_run [EvIncrement 10]
                 (monitor_init, world_of (kernel_returning 0)))) = 0"
  by (simp add: monitor_run_def monitor_step_def monitor_example_first)


subsection \<open>Random bind\<close>

lemma ToSockAddr_port: "ToSockAddr \<lparr>address = a, port = q\<rparr> = ToSockAddr \<lparr>address = a, port = 0\<rparr>"
  by (simp add: ToSockAddr_def)

lemma DoBind_bind_result:
  "ToSockAddr e \<Longrightarrow>
     DoBind p s e w =
       (bind_result p (sys_reply w (length (sys_log w)) (sys_bind (socket s) e)),
        w\<lparr>sys_log := sys_log w @ [sys_bind (socket s) e]\<rparr>)"
  by (auto simp add: DoBind_def bind_result_def sys_def Let_def)

lemma bind_attempts_single:
  assumes "out = (bind_result p (sys_reply w (length (sys_log w))
                     (sys_bind (socket s) \<lparr>address = a, port = q\<rparr>)),
                  w\<lparr>rand_used := rand_used w + min 1 k,
                    sys_log := sys_log w @ [sys_bind (socket s) \<lparr>address = a, port = q\<rparr>]\<rparr>)"
    and "0 < k \<longrightarrow> q = kPortStart + int (rand_src w (rand_used w)) mod (kPortEnd - kPortStart + 1)"
    and "0 < k \<longrightarrow> fst out \<noteq> Inl ERR_ADDRESS_IN_USE"
    and "k = 0 \<longrightarrow> q = 0"
  shows "bind_attempts p s a k w [q] out"
  using assms by (auto simp add: bind_attempts_def)

lemma bind_attempts_Cons:
  assumes pt: "pt = kPortStart + int (rand_src w (rand_used w)) mod (kPortEnd - kPortStart + 1)"
    and inuse: "bind_result p (sys_reply w (length (sys_log w))
                  (sys_bind (socket s) \<lparr>address = a, port = pt\<rparr>)) = Inl ERR_ADDRESS_IN_USE"
    and rest: "bind_attempts p s a k
                 (w\<lparr>rand_used := Suc (rand_used w),
                    sys_log := sys_log w @ [sys_bind (socket s) \<lparr>address = a, port = pt\<rparr>]\<rparr>)
                 ps out"
  shows "bind_attempts p s a (Suc k) w (pt # ps) out"
proof -
  let ?w1 = "w\<lparr>rand_used := Suc (rand_used w),
                sys_log := sys_log w @ [sys_bind (socket s) \<lparr>address = a, port = pt\<rparr>]\<rparr>"
  from rest have len: "1 \<le> length ps" "length ps \<le> k + 1"
    and world: "snd out = ?w1\<lparr>rand_used := rand_used ?w1 + min (length ps) k,
                  sys_log := sys_log ?w1
                     @ map (\<lambda>q. sys_bind (socket s) \<lparr>address = a, port = q\<rparr>) ps\<rparr>"
    and draws: "\<And>j. j < length ps \<Longrightarrow> j < k \<Longrightarrow>
          ps ! j = kPortStart
                     + int (rand_src ?w1 (rand_used ?w1 + j)) mod (kPortEnd - kPortStart + 1)"
    and zero: "length ps = k + 1 \<Longrightarrow> ps ! k = 0"
    and before: "\<And>j. j + 1 < length ps \<Longrightarrow>
          bind_result p (sys_reply ?w1 (length (sys_log ?w1) + j)
                           (sys_bind (socket s) \<lparr>address = a, port = ps ! j\<rparr>))
            = Inl ERR_ADDRESS_IN_USE"
    and last: "fst out =
        bind_result p (sys_reply ?w1 (length (sys_log ?w1) + (length ps - 1))
                         (sys_bind (socket s) \<lparr>address = a, port = ps ! (length ps - 1)\<rparr>))"
    and early: "length ps \<le> k \<Longrightarrow> fst out \<noteq> Inl ERR_ADDRESS_IN_USE"
    unfolding bind_attempts_def by blast+
  have c1: "1 \<le> length (pt # ps) \<and> length (pt # ps) \<le> Suc k + 1"
    using len by simp
  have c2: "snd out = w\<lparr>rand_used := rand_used w + min (length (pt # ps)) (Suc k),
                  sys_log := sys_log w
                     @ map (\<lambda>q. sys_bind (socket s) \<lparr>address = a, port = q\<rparr>) (pt # ps)\<rparr>"
    using world by simp
  have c3: "\<forall>j. j < length (pt # ps) \<and> j < Suc k \<longrightarrow>
          (pt # ps) ! j = kPortStart
                     + int (rand_src w (rand_used w + j)) mod (kPortEnd - kPortStart + 1)"
  proof (intro allI impI)
    fix j assume j: "j < length (pt # ps) \<and> j < Suc k"
    show "(pt # ps) ! j = kPortStart
                     + int (rand_src w (rand_used w + j)) mod (kPortEnd - kPortStart + 1)"
    proof (cases j)
      case 0
      then show ?thesis using pt by simp
    next
      case (Suc j')
      then show ?thesis using j draws [of j'] by simp
    qed
  qed
  have c4: "length (pt # ps) = Suc k + 1 \<longrightarrow> (pt # ps) ! Suc k = 0"
    using zero by simp
  have c5: "\<forall>j. j + 1 < length (pt # ps) \<longrightarrow>
          bind_result p (sys_reply w (length (sys_log w) + j)
                           (sys_bind (socket s) \<lparr>address = a, port = (pt # ps) ! j\<rparr>))
            = Inl ERR_ADDRESS_IN_USE"
  proof (intro allI impI)
    fix j assume j: "j + 1 < length (pt # ps)"
    show "bind_result p (sys_reply w (length (sys_log w) + j)
                           (sys_bind (socket s) \<lparr>address = a, port = (pt # ps) ! j\<rparr>))
            = Inl ERR_ADDRESS_IN_USE"
    proof (cases j)
      case 0
      then show ?thesis using inuse by simp
    next
      case (Suc j')
      then show ?thesis using j before [of j'] by simp
    qed
  qed
  have c6: "fst out =
        bind_result p (sys_reply w (length (sys_log w) + (length (pt # ps) - 1))
                         (sys_bind (socket s)
                            \<lparr>address = a, port = (pt # ps) ! (length (pt # ps) - 1)\<rparr>))"
  proof -
    obtain n where n: "length ps = Suc n" using len by (cases ps) auto
    show ?thesis using last by (simp add: n)
  qed
  have c7: "length (pt # ps) \<le> Suc k \<longrightarrow> fst out \<noteq> Inl ERR_ADDRESS_IN_USE"
    using early by simp
  show ?thesis
    unfolding bind_attempts_def using c1 c2 c3 c4 c5 c6 c7 by blast
qed


lemma RandomBind_from_attempts:
  assumes "ToSockAddr \<lparr>address = a, port = 0\<rparr>" and "0 \<le> i" and "i \<le> kBindRetries"
  shows "\<exists>ps. bind_attempts p s a (nat (kBindRetries - i)) w ps (RandomBind_from p s a i w)"
  using assms
proof (induction p s a i w rule: RandomBind_from.induct)
  case (1 p s a i w)
  have conv: "\<And>q. ToSockAddr \<lparr>address = a, port = q\<rparr>"
    using "1.prems"(1) ToSockAddr_port by blast
  show ?case
  proof (cases "i < kBindRetries")
    case False
    with "1.prems" have i: "i = kBindRetries" by simp
    have "RandomBind_from p s a i w = DoBind p s \<lparr>address = a, port = 0\<rparr> w"
      using False by (subst RandomBind_from.simps) simp
    then have "bind_attempts p s a (nat (kBindRetries - i)) w [0] (RandomBind_from p s a i w)"
      by (intro bind_attempts_single) (simp_all add: DoBind_bind_result conv i)
    then show ?thesis by blast
  next
    case True
    define pt where "pt = kPortStart + int (rand_src w (rand_used w)) mod (kPortEnd - kPortStart + 1)"
    define wr where "wr = w\<lparr>rand_used := Suc (rand_used w)\<rparr>"
    define rv where "rv = bind_result p (sys_reply w (length (sys_log w))
                             (sys_bind (socket s) \<lparr>address = a, port = pt\<rparr>))"
    define wb where "wb = w\<lparr>rand_used := Suc (rand_used w),
                 sys_log := sys_log w @ [sys_bind (socket s) \<lparr>address = a, port = pt\<rparr>]\<rparr>"
    have draw: "RandInt kPortStart kPortEnd w = (pt, wr)"
      by (simp add: RandInt_def pt_def wr_def)
    have bound: "DoBind p s \<lparr>address = a, port = pt\<rparr> wr = (rv, wb)"
      by (simp add: DoBind_bind_result conv rv_def wb_def wr_def)
    obtain k where k: "nat (kBindRetries - i) = Suc k" "nat (kBindRetries - (i + 1)) = k"
      using True by (cases "nat (kBindRetries - i)") auto
    have unfold: "RandomBind_from p s a i w =
        (if rv \<noteq> Inl ERR_ADDRESS_IN_USE then (rv, wb) else RandomBind_from p s a (i + 1) wb)"
      using True by (subst RandomBind_from.simps) (simp add: draw bound)
    show ?thesis
    proof (cases "rv = Inl ERR_ADDRESS_IN_USE")
      case False
      have "bind_attempts p s a (Suc k) w [pt] (rv, wb)"
        using False by (intro bind_attempts_single) (simp_all add: rv_def wb_def pt_def)
      with False show ?thesis by (auto simp add: unfold k)
    next
      case inuse: True
      have "\<exists>ps. bind_attempts p s a (nat (kBindRetries - (i + 1))) wb ps
                   (RandomBind_from p s a (i + 1) wb)"
        using True inuse "1.prems"
        by (intro "1.IH" [OF True draw [symmetric] refl bound [symmetric]]) simp_all
      then obtain ps where ps: "bind_attempts p s a k wb ps (RandomBind_from p s a (i + 1) wb)"
        by (auto simp add: k)
      have "bind_attempts p s a (Suc k) w (pt # ps) (RandomBind_from p s a (i + 1) wb)"
        using inuse ps by (intro bind_attempts_Cons) (simp_all add: pt_def rv_def wb_def)
      with inuse show ?thesis by (auto simp add: unfold k)
    qed
  qed
qed

lemma RandInt_port_range:
  "kPortStart \<le> kPortStart + int x mod (kPortEnd - kPortStart + 1)
 \<and> kPortStart + int x mod (kPortEnd - kPortStart + 1) \<le> kPortEnd"
proof -
  have "0 \<le> int x mod 64512" "int x mod 64512 < 64512" by simp_all
  then show ?thesis by (simp add: kPortStart_def kPortEnd_def)
qed

text \<open>
  C1. \<^verbatim>\<open>RandomBind\<close> of a wildcard address (of 4 or 16 bytes) tries a list of ports \<open>ps\<close>,
  at least one and at most 11, and issues exactly the binds of the address to these ports,
  in order. Each of the first ten ports is a draw of \<^verbatim>\<open>RandInt(1024, 65535)\<close>, and so
  lies between 1024 and 65535; an eleventh port is port 0. Every attempt before the last
  was answered address-in-use; the result is what the last attempt was answered (success
  or an error); and when ten or fewer ports were tried, that result is not
  address-in-use: the loop ended at the first answer that was not. So port 0 is bound
  only after ten address-in-use answers in a row.
  \<^verbatim>\<open>InternalConnect\<close> on a socket of bind type \<open>RANDOM_BIND\<close> runs \<^verbatim>\<open>RandomBind\<close> on the
  wildcard address of the destination's family first; when that fails it returns the
  error without any further call, and otherwise the only call after the binds is the
  \<^verbatim>\<open>connect\<close>.
\<close>

theorem RandomBind_retries_then_port_zero:
  "(length a = kIPv4AddressSize \<or> length a = kIPv6AddressSize \<longrightarrow>
     (\<exists>ps. 1 \<le> length ps \<and> length ps \<le> 11
        \<and> snd (RandomBind p s a w) =
             w\<lparr>rand_used := rand_used w + min (length ps) 10,
               sys_log := sys_log w
                  @ map (\<lambda>q. sys_bind (socket s) \<lparr>address = a, port = q\<rparr>) ps\<rparr>
        \<and> (\<forall>j. j < length ps \<and> j < 10 \<longrightarrow>
               ps ! j = 1024 + int (rand_src w (rand_used w + j)) mod 64512
             \<and> 1024 \<le> ps ! j \<and> ps ! j \<le> 65535)
        \<and> (length ps = 11 \<longrightarrow> ps ! 10 = 0)
        \<and> (\<forall>j. j + 1 < length ps \<longrightarrow>
               bind_result p (sys_reply w (length (sys_log w) + j)
                                (sys_bind (socket s) \<lparr>address = a, port = ps ! j\<rparr>))
                 = Inl ERR_ADDRESS_IN_USE)
        \<and> fst (RandomBind p s a w) =
             bind_result p
               (sys_reply w (length (sys_log w) + (length ps - 1))
                  (sys_bind (socket s) \<lparr>address = a, port = ps ! (length ps - 1)\<rparr>))
        \<and> (length ps \<le> 10 \<longrightarrow> fst (RandomBind p s a w) \<noteq> Inl ERR_ADDRESS_IN_USE)))
 \<and> (bind_type s = RANDOM_BIND \<longrightarrow>
      (let zeros = AllZeros (if GetSockAddrFamily dest = AF_INET
                             then kIPv4AddressSize else kIPv6AddressSize);
           (rvb, wb) = RandomBind p s zeros w;
           (rv, s', w') = InternalConnect p s dest w
       in (length zeros = kIPv4AddressSize \<or> length zeros = kIPv6AddressSize)
        \<and> (isl rvb \<longrightarrow> rv = rvb \<and> w' = wb)
        \<and> (\<not> isl rvb \<longrightarrow>
              sys_log w' = sys_log wb
                @ (if ToSockAddr dest then [sys_connect (socket s) dest] else []))))"
proof (intro conjI impI)
  assume size: "length a = kIPv4AddressSize \<or> length a = kIPv6AddressSize"
  then have "ToSockAddr \<lparr>address = a, port = 0\<rparr>" by (simp add: ToSockAddr_def)
  then obtain ps where "bind_attempts p s a (nat (kBindRetries - 0)) w ps (RandomBind p s a w)"
    unfolding RandomBind_def
    using RandomBind_from_attempts [of a 0 p s w] by (auto simp add: kBindRetries_def)
  then have ps: "bind_attempts p s a 10 w ps (RandomBind p s a w)"
    by (simp add: kBindRetries_def)
  have draws: "\<forall>j. j < length ps \<and> j < 10 \<longrightarrow>
               ps ! j = 1024 + int (rand_src w (rand_used w + j)) mod 64512
             \<and> 1024 \<le> ps ! j \<and> ps ! j \<le> 65535"
  proof (intro allI impI)
    fix j assume j: "j < length ps \<and> j < 10"
    with ps have eq: "ps ! j = kPortStart
                     + int (rand_src w (rand_used w + j)) mod (kPortEnd - kPortStart + 1)"
      unfolding bind_attempts_def by blast
    with RandInt_port_range [of "rand_src w (rand_used w + j)"]
    show "ps ! j = 1024 + int (rand_src w (rand_used w + j)) mod 64512
             \<and> 1024 \<le> ps ! j \<and> ps ! j \<le> 65535"
      by (simp add: kPortStart_def kPortEnd_def)
  qed
  from ps have len: "1 \<le> length ps" "length ps \<le> 10 + 1"
    unfolding bind_attempts_def by blast+
  then have len11: "length ps \<le> 11" by simp
  from ps have world: "snd (RandomBind p s a w) =
             w\<lparr>rand_used := rand_used w + min (length ps) 10,
               sys_log := sys_log w
                  @ map (\<lambda>q. sys_bind (socket s) \<lparr>address = a, port = q\<rparr>) ps\<rparr>"
    unfolding bind_attempts_def by blast
  from ps have "length ps = 10 + 1 \<longrightarrow> ps ! 10 = 0"
    unfolding bind_attempts_def by blast
  then have zero: "length ps = 11 \<longrightarrow> ps ! 10 = 0" by simp
  from ps have before: "\<forall>j. j + 1 < length ps \<longrightarrow>
               bind_result p (sys_reply w (length (sys_log w) + j)
                                (sys_bind (socket s) \<lparr>address = a, port = ps ! j\<rparr>))
                 = Inl ERR_ADDRESS_IN_USE"
    unfolding bind_attempts_def by blast
  from ps have last: "fst (RandomBind p s a w) =
             bind_result p
               (sys_reply w (length (sys_log w) + (length ps - 1))
                  (sys_bind (socket s) \<lparr>address = a, port = ps ! (length ps - 1)\<rparr>))"
    unfolding bind_attempts_def by blast
  from ps have early: "length ps \<le> 10 \<longrightarrow> fst (RandomBind p s a w) \<noteq> Inl ERR_ADDRESS_IN_USE"
    unfolding bind_attempts_def by blast
  note rest = len(1) len11 world zero before last early
  show "\<exists>ps. 1 \<le> length ps \<and> length ps \<le> 11
        \<and> snd (RandomBind p s a w) =
             w\<lparr>rand_used := rand_used w + min (length ps) 10,
               sys_log := sys_log w
                  @ map (\<lambda>q. sys_bind (socket s) \<lparr>address = a, port = q\<rparr>) ps\<rparr>
        \<and> (\<forall>j. j < length ps \<and> j < 10 \<longrightarrow>
               ps ! j = 1024 + int (rand_src w (rand_used w + j)) mod 64512
             \<and> 1024 \<le> ps ! j \<and> ps ! j \<le> 65535)
        \<and> (length ps = 11 \<longrightarrow> ps ! 10 = 0)
        \<and> (\<forall>j. j + 1 < length ps \<longrightarrow>
               bind_result p (sys_reply w (length (sys_log w) + j)
                                (sys_bind (socket s) \<lparr>address = a, port = ps ! j\<rparr>))
                 = Inl ERR_ADDRESS_IN_USE)
        \<and> fst (RandomBind p s a w) =
             bind_result p
               (sys_reply w (length (sys_log w) + (length ps - 1))
                  (sys_bind (socket s) \<lparr>address = a, port = ps ! (length ps - 1)\<rparr>))
        \<and> (length ps \<le> 10 \<longrightarrow> fst (RandomBind p s a w) \<noteq> Inl ERR_ADDRESS_IN_USE)"
    using rest draws by (intro exI [of _ ps]) blast
next
  assume "bind_type s = RANDOM_BIND"
  then show "(let zeros = AllZeros (if GetSockAddrFamily dest = AF_INET
                             then kIPv4AddressSize else kIPv6AddressSize);
           (rvb, wb) = RandomBind p s zeros w;
           (rv, s', w') = InternalConnect p s dest w
       in (length zeros = kIPv4AddressSize \<or> length zeros = kIPv6AddressSize)
        \<and> (isl rvb \<longrightarrow> rv = rvb \<and> w' = wb)
        \<and> (\<not> isl rvb \<longrightarrow>
              sys_log w' = sys_log wb
                @ (if ToSockAddr dest then [sys_connect (socket s) dest] else [])))"
    by (simp add: InternalConnect_def Let_def split_beta sys_def AllZeros_def)
qed

lemma RandomBind_example_occupied:
  "RandomBind posix_build (example_open_socket RANDOM_BIND) (AllZeros 4)
     (world_of (kernel_failing is_random_port_bind EADDRINUSE)) =
   (OK,
    (world_of (kernel_failing is_random_port_bind EADDRINUSE))
      \<lparr>rand_used := 10,
       sys_log := map (\<lambda>q. sys_bind 3 \<lparr>address = AllZeros 4, port = q\<rparr>)
                    [41024, 48943, 56862, 64781, 8188, 16107, 24026, 31945, 39864, 47783, 0]\<rparr>)"
  by (simp add: RandomBind_def RandomBind_from.simps kBindRetries_def DoBind_def
        ToSockAddr_def AllZeros_def kIPv4AddressSize_def RandInt_def sys_def example_simps
        split_beta kPortStart_def kPortEnd_def)

lemma RandomBind_example_free:
  "RandomBind posix_build (example_open_socket RANDOM_BIND) (AllZeros 4)
     (world_of (kernel_returning 0)) =
   (OK,
    (world_of (kernel_returning 0))
      \<lparr>rand_used := 1, sys_log := [sys_bind 3 \<lparr>address = AllZeros 4, port = 41024\<rparr>]\<rparr>)"
  by (simp add: RandomBind_def RandomBind_from.simps [of _ _ _ 0] kBindRetries_def DoBind_def
        ToSockAddr_def AllZeros_def kIPv4AddressSize_def RandInt_def sys_def example_simps
        split_beta kPortStart_def kPortEnd_def)

theorem RandomBind_retries_then_port_zero_witness:
  "RandomBind posix_build (example_open_socket RANDOM_BIND) (AllZeros 4)
     (world_of (kernel_failing is_random_port_bind EADDRINUSE)) =
   (OK,
    (world_of (kernel_failing is_random_port_bind EADDRINUSE))
      \<lparr>rand_used := 10,
       sys_log := map (\<lambda>q. sys_bind 3 \<lparr>address = AllZeros 4, port = q\<rparr>)
                    [41024, 48943, 56862, 64781, 8188, 16107, 24026, 31945, 39864, 47783, 0]\<rparr>)
 \<and> RandomBind posix_build (example_open_socket RANDOM_BIND) (AllZeros 4)
     (world_of (kernel_returning 0)) =
   (OK,
    (world_of (kernel_returning 0))
      \<lparr>rand_used := 1, sys_log := [sys_bind 3 \<lparr>address = AllZeros 4, port = 41024\<rparr>]\<rparr>)
 \<and> sys_log (snd (snd (InternalConnect posix_build (example_open_socket RANDOM_BIND)
                         example_peer (world_of (kernel_returning 0))))) =
     [sys_bind 3 \<lparr>address = AllZeros 4, port = 41024\<rparr>, sys_connect 3 example_peer]"
proof -
  have size: "length (AllZeros 4) = kIPv4AddressSize \<or> length (AllZeros 4) = kIPv6AddressSize"
    by (simp add: AllZeros_def kIPv4AddressSize_def)
  have random: "bind_type (example_open_socket RANDOM_BIND) = RANDOM_BIND"
    by (simp add: example_open_socket_simps)
  note occupied =
    RandomBind_retries_then_port_zero
      [where p = posix_build and s = "example_open_socket RANDOM_BIND" and a = "AllZeros 4"
         and w = "world_of (kernel_failing is_random_port_bind EADDRINUSE)",
       THEN conjunct1, rule_format, OF size]
  note connect =
    RandomBind_retries_then_port_zero
      [where p = posix_build and s = "example_open_socket RANDOM_BIND" and dest = example_peer
         and w = "world_of (kernel_returning 0)",
       THEN conjunct2, rule_format, OF random]
  have log: "sys_log (snd (snd (InternalConnect posix_build (example_open_socket RANDOM_BIND)
                         example_peer (world_of (kernel_returning 0))))) =
     [sys_bind 3 \<lparr>address = AllZeros 4, port = 41024\<rparr>, sys_connect 3 example_peer]"
    using connect
    by (simp add: Let_def split_beta example_peer_simps kIPv4AddressSize_def
          RandomBind_example_free example_open_socket_simps)
  from occupied obtain ps where
    "snd (RandomBind posix_build (example_open_socket RANDOM_BIND) (AllZeros 4)
           (world_of (kernel_failing is_random_port_bind EADDRINUSE))) =
     (world_of (kernel_failing is_random_port_bind EADDRINUSE))
       \<lparr>rand_used := rand_used (world_of (kernel_failing is_random_port_bind EADDRINUSE))
                       + min (length ps) 10,
        sys_log := sys_log (world_of (kernel_failing is_random_port_bind EADDRINUSE))
           @ map (\<lambda>q. sys_bind (socket (example_open_socket RANDOM_BIND))
                         \<lparr>address = AllZeros 4, port = q\<rparr>) ps\<rparr>"
    by blast
  with log show ?thesis
    by (simp add: RandomBind_example_occupied RandomBind_example_free)
qed


end
